theory Spec2Isabelle
  imports Main "HOL-Library.Word"
begin

unbundle bit_operations_syntax

section \<open>The USB passthrough device (Source/Core/Core/IOS/USB/LibusbDevice.cpp)\<close>

text \<open>
  A shallow embedding of \<^verbatim>\<open>LibusbDevice\<close>, its \<^verbatim>\<open>TransferEndpoint\<close> tracker and
  \<^verbatim>\<open>LibusbConfigDescriptor\<close>. Member functions take the object and return it updated.
  What a call does to the outside (host calls, log lines, calls on the owning command,
  IPC replies) is returned as a list of events, in program order. Undefined behaviour,
  a failed assertion and a C++ exception are results of type \<open>fault\<close>.
\<close>

subsection \<open>Machine integers\<close>

type_synonym u8 = "8 word"
type_synonym u16 = "16 word"
type_synonym u32 = "32 word"
type_synonym u64 = "64 word"

subsection \<open>Constants\<close>

text \<open>
  The libusb error codes the file compares against, as libusb.h (the host library's
  public header) fixes them.
\<close>

definition LIBUSB_SUCCESS :: int where "LIBUSB_SUCCESS = 0"
definition LIBUSB_ERROR_NO_DEVICE :: int where "LIBUSB_ERROR_NO_DEVICE = - 4"
definition LIBUSB_ERROR_NOT_FOUND :: int where "LIBUSB_ERROR_NOT_FOUND = - 5"
definition LIBUSB_ERROR_NOT_SUPPORTED :: int where "LIBUSB_ERROR_NOT_SUPPORTED = - 12"

text \<open>\<^verbatim>\<open>sizeof(struct libusb_control_setup)\<close>: the eight bytes of a USB setup packet.\<close>

definition LIBUSB_CONTROL_SETUP_SIZE :: nat where "LIBUSB_CONTROL_SETUP_SIZE = 8"

text \<open>\<^verbatim>\<open>enum libusb_transfer_type\<close>, stored in the \<^verbatim>\<open>unsigned char type\<close> of a transfer.\<close>

definition LIBUSB_TRANSFER_TYPE_CONTROL :: u8 where "LIBUSB_TRANSFER_TYPE_CONTROL = 0"
definition LIBUSB_TRANSFER_TYPE_ISOCHRONOUS :: u8 where "LIBUSB_TRANSFER_TYPE_ISOCHRONOUS = 1"
definition LIBUSB_TRANSFER_TYPE_BULK :: u8 where "LIBUSB_TRANSFER_TYPE_BULK = 2"
definition LIBUSB_TRANSFER_TYPE_INTERRUPT :: u8 where "LIBUSB_TRANSFER_TYPE_INTERRUPT = 3"

text \<open>\<^verbatim>\<open>LIBUSB_TRANSFER_FREE_TRANSFER\<close>, a bit of \<^verbatim>\<open>transfer->flags\<close>.\<close>

definition LIBUSB_TRANSFER_FREE_TRANSFER :: u8 where "LIBUSB_TRANSFER_FREE_TRANSFER = 4"

text \<open>\<^verbatim>\<open>enum libusb_transfer_status\<close>, in the order of the switch of \<^verbatim>\<open>HandleTransfer\<close>.\<close>

datatype libusb_transfer_status =
    LIBUSB_TRANSFER_COMPLETED
  | LIBUSB_TRANSFER_ERROR
  | LIBUSB_TRANSFER_CANCELLED
  | LIBUSB_TRANSFER_TIMED_OUT
  | LIBUSB_TRANSFER_OVERFLOW
  | LIBUSB_TRANSFER_STALL
  | LIBUSB_TRANSFER_NO_DEVICE

text \<open>
  Modelled from the spec: the \<^verbatim>\<open>ReturnCode\<close> enumeration of Core/IOS/Device.h is not
  among the sources. The spec gives the success value of an isochronous transfer, which
  the code returns as \<^verbatim>\<open>IPC_SUCCESS\<close>, as zero; the comment at that return statement says
  the same ("isochronous transfers *must* return 0 as the return value").
\<close>

definition IPC_SUCCESS :: int where "IPC_SUCCESS = 0"

text \<open>
  The other names this file takes from headers that are not among the sources are
  parameters of the model: \<^verbatim>\<open>IPC_ENOENT\<close> (Core/IOS/Device.h), and the two case labels
  of the switch in \<^verbatim>\<open>SubmitTransfer(CtrlMessage)\<close>, built by \<^verbatim>\<open>USBHDR\<close> from the request
  constants of Core/IOS/USB/Common.h:
  \<^verbatim>\<open>USBHDR(DIR_HOST2DEVICE, TYPE_STANDARD, REC_INTERFACE, REQUEST_SET_INTERFACE)\<close> and
  \<^verbatim>\<open>USBHDR(DIR_HOST2DEVICE, TYPE_STANDARD, REC_DEVICE, REQUEST_SET_CONFIGURATION)\<close>.
\<close>

record header_constants =
  IPC_ENOENT :: int
  USBHDR_SET_INTERFACE :: int
  USBHDR_SET_CONFIGURATION :: int

subsection \<open>Faults\<close>

datatype fault =
    OutOfBounds       \<comment> \<open>an array or vector read past its end\<close>
  | NullPointer       \<comment> \<open>a null pointer dereferenced\<close>
  | AssertFailed      \<comment> \<open>the condition of an \<^verbatim>\<open>_assert_\<close> is false\<close>
  | OutOfRange        \<comment> \<open>\<^verbatim>\<open>std::out_of_range\<close> thrown by \<^verbatim>\<open>std::map::at\<close>\<close>
  | BadCast           \<comment> \<open>a \<^verbatim>\<open>static_cast\<close> to a class the object is not\<close>
  | NoReturn          \<comment> \<open>a loop whose counter cannot reach its bound\<close>

definition array_at :: "'a list \<Rightarrow> nat \<Rightarrow> fault + 'a" where
  "array_at xs i = (if i < length xs then Inr (xs ! i) else Inl OutOfBounds)"

text \<open>A counted loop that reads one element per round and stops at the first fault.\<close>

fun for_each :: "(nat \<Rightarrow> fault + 'a) \<Rightarrow> nat list \<Rightarrow> fault + 'a list" where
  "for_each f [] = Inr []"
| "for_each f (i # rest) =
     (case f i of
        Inl e \<Rightarrow> Inl e
      | Inr x \<Rightarrow> (case for_each f rest of Inl e \<Rightarrow> Inl e | Inr xs \<Rightarrow> Inr (x # xs)))"

subsection \<open>Host descriptors (libusb.h)\<close>

text \<open>
  A libusb descriptor is a C struct holding counts and pointers to arrays. The arrays
  are lists here and the counts stay fields of their own, so a count that disagrees
  with its array is a read out of bounds. The leading bytes that \<^verbatim>\<open>memcpy\<close> copies into
  the IOS descriptor structs (\<^verbatim>\<open>ConfigDescriptor\<close>, \<^verbatim>\<open>InterfaceDescriptor\<close>,
  \<^verbatim>\<open>EndpointDescriptor\<close>) are kept as one field.
\<close>

type_synonym ConfigDescriptor = "u8 list"
type_synonym InterfaceDescriptor = "u8 list"
type_synonym EndpointDescriptor = "u8 list"

record libusb_endpoint_descriptor =
  endpoint_head :: EndpointDescriptor

record libusb_interface_descriptor =
  interface_head :: InterfaceDescriptor
  bNumEndpoints :: u8
  endpoint_array :: "libusb_endpoint_descriptor list"

record libusb_interface =
  altsetting :: "libusb_interface_descriptor list"
  num_altsetting :: int

record libusb_config_descriptor =
  config_head :: ConfigDescriptor
  bNumInterfaces :: u8
  interface :: "libusb_interface list"

record libusb_device_descriptor =
  idVendor :: u16
  idProduct :: u16
  bNumConfigurations :: u8

subsection \<open>Transfer commands (Core/IOS/USB/Common.h)\<close>

text \<open>
  The fields of the four message structs that this file reads. The field widths are
  those of a USB setup packet (8-bit request type and request, 16-bit value, index and
  length) and of an endpoint address (8 bits). A request is known by its address.
\<close>

type_synonym Request = nat

record CtrlMessage =
  ctrl_ios_request :: Request
  ctrl_data_address :: u32
  ctrl_request_type :: u8
  ctrl_request :: u8
  ctrl_value :: u16
  ctrl_index :: u16
  ctrl_length :: u16

record BulkMessage =
  bulk_ios_request :: Request
  bulk_data_address :: u32
  bulk_length :: u16
  bulk_endpoint :: u8

record IntrMessage =
  intr_ios_request :: Request
  intr_data_address :: u32
  intr_length :: u16
  intr_endpoint :: u8

record IsoMessage =
  iso_ios_request :: Request
  iso_data_address :: u32
  iso_packet_sizes :: "u16 list"
  iso_length :: u16
  iso_num_packets :: u8
  iso_endpoint :: u8

datatype TransferCommand =
    Ctrl CtrlMessage
  | Bulk BulkMessage
  | Intr IntrMessage
  | Iso IsoMessage

subsection \<open>Host transfers (libusb.h)\<close>

text \<open>
  A transfer buffer is known by how it was made: the setup packet that
  \<^verbatim>\<open>libusb_fill_control_setup\<close> writes followed by the bytes \<^verbatim>\<open>Memory::CopyFromEmu\<close> copies
  from the command's data address, or the result of \<^verbatim>\<open>cmd->MakeBuffer(cmd->length)\<close>.
\<close>

datatype transfer_buffer =
    NoBuffer
  | ControlBuffer u8 u8 u16 u16 u16 u32
  | MadeBuffer TransferCommand nat

datatype transfer_cb_fn = Cb_None | Cb_CtrlTransferCallback | Cb_TransferCallback

text \<open>\<^verbatim>\<open>struct libusb_iso_packet_descriptor\<close>: both lengths are \<^verbatim>\<open>unsigned int\<close>.\<close>

record libusb_iso_packet_descriptor =
  packet_length :: u32
  packet_actual_length :: u32

record libusb_transfer =
  dev_handle :: "nat option"
  flags :: u8
  endpoint :: u8
  transfer_type :: u8
  timeout :: nat
  status :: libusb_transfer_status
  transfer_length :: int
  actual_length :: int
  callback :: transfer_cb_fn
  buffer :: transfer_buffer
  num_iso_packets :: int
  iso_packet_desc :: "libusb_iso_packet_descriptor list"

text \<open>
  What \<^verbatim>\<open>libusb_alloc_transfer(n)\<close> returns: a zeroed transfer with room for \<open>n\<close>
  isochronous packet descriptors.
\<close>

definition zeroed_transfer :: "nat \<Rightarrow> libusb_transfer" where
  "zeroed_transfer n =
     \<lparr>dev_handle = None, flags = 0, endpoint = 0, transfer_type = 0, timeout = 0,
      status = LIBUSB_TRANSFER_COMPLETED, transfer_length = 0, actual_length = 0,
      callback = Cb_None, buffer = NoBuffer, num_iso_packets = 0,
      iso_packet_desc = replicate n \<lparr>packet_length = 0, packet_actual_length = 0\<rparr>\<rparr>"

subsection \<open>Events\<close>

datatype log_level = LNOTICE | LERROR | LINFO

datatype host_call =
    Call_libusb_open
  | Call_libusb_detach_kernel_driver nat u8
  | Call_libusb_claim_interface nat u8
  | Call_libusb_release_interface nat u8
  | Call_libusb_set_interface_alt_setting "nat option" u8 u8
  | Call_libusb_set_configuration "nat option" u16
  | Call_libusb_alloc_transfer nat
  | Call_libusb_submit_transfer nat libusb_transfer
  | Call_libusb_cancel_transfer nat

text \<open>
  Modelled from the spec: \<^verbatim>\<open>FillBuffer\<close> and \<^verbatim>\<open>SetPacketReturnValue\<close> are declared in
  Core/IOS/USB/Common.h and defined in Common.cpp, which are not among the sources.
  They are the calls a completion function makes on the command, which the spec has
  copy the data back and write the per-packet actual lengths back one by one:
  \<^verbatim>\<open>FillBuffer(src, size)\<close>, with the source given as a transfer buffer and an offset
  into it, and \<^verbatim>\<open>SetPacketReturnValue(packet_num, return_value)\<close>. The return value of
  a packet is a \<^verbatim>\<open>u16\<close>, as wide as the packet sizes of the command: an argument of
  another width is converted to 16 bits at the call.
\<close>

datatype command_call =
    FillBuffer transfer_buffer nat int
  | SetPacketReturnValue nat u16

datatype event =
    Log log_level string
  | Host host_call
  | EnqueueIPCReply Request int
  | CommandCall TransferCommand command_call
  | OnTransferComplete TransferCommand int

subsection \<open>The host\<close>

text \<open>
  The results of the libusb calls are not decided by this file: they are parameters.
  No function below makes the same libusb call twice with the same arguments, so a
  result that depends on the arguments alone loses nothing. \<^verbatim>\<open>libusb_open\<close> and
  \<^verbatim>\<open>libusb_get_config_descriptor\<close> get the address of a member and may write it: their
  result carries the member's new value. A pointer that may be null is an option.
\<close>

record host =
  libusb_get_bus_number :: u8
  libusb_get_device_address :: u8
  libusb_get_config_descriptor :: "u8 \<Rightarrow> int \<times> libusb_config_descriptor option"
  libusb_open :: "nat option \<Rightarrow> int \<times> nat option"
  libusb_detach_kernel_driver :: "nat \<Rightarrow> u8 \<Rightarrow> int"
  libusb_claim_interface :: "nat \<Rightarrow> u8 \<Rightarrow> int"
  libusb_release_interface :: "nat \<Rightarrow> u8 \<Rightarrow> int"
  libusb_set_interface_alt_setting :: "nat option \<Rightarrow> u8 \<Rightarrow> u8 \<Rightarrow> int"
  libusb_set_configuration :: "nat option \<Rightarrow> u16 \<Rightarrow> int"
  libusb_alloc_transfer :: "nat \<Rightarrow> nat option"
  libusb_submit_transfer :: "nat \<Rightarrow> libusb_transfer \<Rightarrow> int"

subsection \<open>The objects\<close>

text \<open>
  \<^verbatim>\<open>m_transfers\<close> is a \<^verbatim>\<open>std::map\<close> from transfer pointers to commands: a list of pairs
  in ascending key order, the order in which \<^verbatim>\<open>CancelTransfers\<close> walks it.
  \<^verbatim>\<open>m_transfer_endpoints\<close> is a \<^verbatim>\<open>std::map\<close> that is only searched and indexed.
\<close>

record TransferEndpoint =
  m_transfers :: "(nat \<times> TransferCommand) list"

record LibusbConfigDescriptor =
  m_descriptor :: "libusb_config_descriptor option"

record LibusbDevice =
  m_vid :: u16
  m_pid :: u16
  m_id :: u64
  m_config_descriptors :: "LibusbConfigDescriptor list"
  m_device_attached :: bool
  m_active_interface :: u8
  m_handle :: "nat option"
  m_transfer_endpoints :: "u8 \<rightharpoonup> TransferEndpoint"

subsection \<open>Construction (lines 27-40 and 424-428)\<close>

text \<open>
  \<^verbatim>\<open>if (libusb_get_config_descriptor(device, config_num, &m_descriptor) != LIBUSB_SUCCESS)
    m_descriptor = nullptr;\<close>
\<close>

definition LibusbConfigDescriptor_ctor :: "host \<Rightarrow> u8 \<Rightarrow> LibusbConfigDescriptor" where
  "LibusbConfigDescriptor_ctor h config_num =
     (case libusb_get_config_descriptor h config_num of
        (ret, written) \<Rightarrow>
          \<lparr>m_descriptor = (if ret \<noteq> LIBUSB_SUCCESS then None else written)\<rparr>)"

text \<open>
  Modelled from the spec: \<^verbatim>\<open>IsValid\<close> and \<^verbatim>\<open>Get\<close> are defined in
  Core/IOS/USB/LibusbDevice.h, which is not among the sources. An unreadable
  descriptor is the one the constructor sets to null; \<^verbatim>\<open>Get\<close> hands out the pointer.
\<close>

definition IsValid :: "LibusbConfigDescriptor \<Rightarrow> bool" where
  "IsValid c = (m_descriptor c \<noteq> None)"

definition Get :: "LibusbConfigDescriptor \<Rightarrow> libusb_config_descriptor option" where
  "Get c = m_descriptor c"

text \<open>
  The constructor. \<open>this\<close> is the object as the default member initializers of
  LibusbDevice.h leave it; the loop appends one config descriptor per configuration.
  \<^verbatim>\<open>m_id = (static_cast<u64>(m_vid) << 32 | static_cast<u64>(m_pid) << 16 |
          static_cast<u64>(libusb_get_bus_number(device)) << 8 |
          static_cast<u64>(libusb_get_device_address(device)));\<close>
\<close>

definition LibusbDevice_ctor ::
    "host \<Rightarrow> libusb_device_descriptor \<Rightarrow> LibusbDevice \<Rightarrow> LibusbDevice" where
  "LibusbDevice_ctor h descriptor this =
     this
       \<lparr>m_vid := idVendor descriptor,
        m_pid := idProduct descriptor,
        m_id :=
          push_bit 32 (ucast (idVendor descriptor) :: u64) OR
          push_bit 16 (ucast (idProduct descriptor) :: u64) OR
          push_bit 8 (ucast (libusb_get_bus_number h) :: u64) OR
          (ucast (libusb_get_device_address h) :: u64),
        m_config_descriptors :=
          m_config_descriptors this @
          map (\<lambda>i. LibusbConfigDescriptor_ctor h (of_nat i))
            [0 ..< unat (bNumConfigurations descriptor)]\<rparr>"

subsection \<open>Descriptor accessors (lines 61-119)\<close>

fun GetConfigurations_loop ::
    "LibusbConfigDescriptor list \<Rightarrow> ConfigDescriptor list \<times> event list" where
  "GetConfigurations_loop [] = ([], [])"
| "GetConfigurations_loop (config_descriptor # rest) =
     (case GetConfigurations_loop rest of
        (descriptors, evs) \<Rightarrow>
          if \<not> IsValid config_descriptor
          then (descriptors,
                Log LERROR ''Ignoring invalid config descriptor for %04x:%04x'' # evs)
          else
            (case Get config_descriptor of
               None \<Rightarrow> (descriptors, evs)
             | Some d \<Rightarrow> (config_head d # descriptors, evs)))"

definition GetConfigurations :: "LibusbDevice \<Rightarrow> ConfigDescriptor list \<times> event list" where
  "GetConfigurations this = GetConfigurations_loop (m_config_descriptors this)"

text \<open>
  The guard shared by \<^verbatim>\<open>GetInterfaces\<close> and \<^verbatim>\<open>GetEndpoints\<close>:
  \<^verbatim>\<open>config >= m_config_descriptors.size() || !m_config_descriptors[config]->IsValid()\<close>.
\<close>

definition invalid_config :: "LibusbDevice \<Rightarrow> u8 \<Rightarrow> bool" where
  "invalid_config this config =
     (unat config \<ge> length (m_config_descriptors this) \<or>
      \<not> IsValid (m_config_descriptors this ! unat config))"

text \<open>\<^verbatim>\<open>m_config_descriptors[config]->Get()\<close>, dereferenced.\<close>

definition config_at :: "LibusbDevice \<Rightarrow> nat \<Rightarrow> fault + libusb_config_descriptor" where
  "config_at this n =
     (case array_at (m_config_descriptors this) n of
        Inl e \<Rightarrow> Inl e
      | Inr c \<Rightarrow> (case Get c of None \<Rightarrow> Inl NullPointer | Some d \<Rightarrow> Inr d))"

text \<open>
  The inner loop of \<^verbatim>\<open>GetInterfaces\<close> counts in a \<^verbatim>\<open>u8\<close> up to the \<^verbatim>\<open>int\<close>
  \<^verbatim>\<open>num_altsetting\<close>: above 255 the counter wraps and never reaches it.
\<close>

definition GetInterfaces_altsettings :: "libusb_interface \<Rightarrow> fault + InterfaceDescriptor list" where
  "GetInterfaces_altsettings iface =
     (if 255 < num_altsetting iface then Inl NoReturn
      else
        for_each
          (\<lambda>a. case array_at (altsetting iface) a of
                 Inl e \<Rightarrow> Inl e
               | Inr alt \<Rightarrow> Inr (interface_head alt))
          [0 ..< nat (num_altsetting iface)])"

definition GetInterfaces ::
    "LibusbDevice \<Rightarrow> u8 \<Rightarrow> fault + (InterfaceDescriptor list \<times> event list)" where
  "GetInterfaces this config =
     (if invalid_config this config
      then Inr ([], [Log LERROR ''Invalid config descriptor %u for %04x:%04x''])
      else
        (case config_at this (unat config) of
           Inl e \<Rightarrow> Inl e
         | Inr c \<Rightarrow>
             (case for_each
                     (\<lambda>i. case array_at (interface c) i of
                            Inl e \<Rightarrow> Inl e
                          | Inr iface \<Rightarrow> GetInterfaces_altsettings iface)
                     [0 ..< unat (bNumInterfaces c)] of
                Inl e \<Rightarrow> Inl e
              | Inr dss \<Rightarrow> Inr (concat dss, []))))"

text \<open>
  \<^verbatim>\<open>_assert_\<close> is the assertion macro of Common/Assert.h. A call whose assertion does
  not hold ends here with \<open>AssertFailed\<close>; the statement after each of the two
  assertions indexes the array the assertion is about.
\<close>

definition GetEndpoints ::
    "LibusbDevice \<Rightarrow> u8 \<Rightarrow> u8 \<Rightarrow> u8 \<Rightarrow> fault + (EndpointDescriptor list \<times> event list)" where
  "GetEndpoints this config interface_number alt_setting =
     (if invalid_config this config
      then Inr ([], [Log LERROR ''Invalid config descriptor %u for %04x:%04x''])
      else
        (case config_at this (unat config) of
           Inl e \<Rightarrow> Inl e
         | Inr c \<Rightarrow>
             if \<not> interface_number < bNumInterfaces c then Inl AssertFailed
             else
               (case array_at (interface c) (unat interface_number) of
                  Inl e \<Rightarrow> Inl e
                | Inr iface \<Rightarrow>
                    if \<not> uint alt_setting < num_altsetting iface then Inl AssertFailed
                    else
                      (case array_at (altsetting iface) (unat alt_setting) of
                         Inl e \<Rightarrow> Inl e
                       | Inr interface_descriptor \<Rightarrow>
                           (case for_each
                                   (\<lambda>i. case array_at (endpoint_array interface_descriptor) i of
                                          Inl e \<Rightarrow> Inl e
                                        | Inr ep \<Rightarrow> Inr (endpoint_head ep))
                                   [0 ..< unat (bNumEndpoints interface_descriptor)] of
                              Inl e \<Rightarrow> Inl e
                            | Inr descriptors \<Rightarrow> Inr (descriptors, []))))))"

subsection \<open>Interfaces (lines 126-180 and 378-422)\<close>

definition AttachInterface ::
    "host \<Rightarrow> LibusbDevice \<Rightarrow> u8 \<Rightarrow> int \<times> LibusbDevice \<times> event list" where
  "AttachInterface h this iface =
     (case m_handle this of
        None \<Rightarrow>
          (- 1, this, [Log LERROR ''[%04x:%04x] Cannot attach without a valid device handle''])
      | Some handle \<Rightarrow>
          (let ret = libusb_detach_kernel_driver h handle iface;
               evs = [Log LINFO ''[%04x:%04x] Attaching interface %d'',
                      Host (Call_libusb_detach_kernel_driver handle iface)]
           in
             if ret < 0 \<and> ret \<noteq> LIBUSB_ERROR_NOT_FOUND \<and> ret \<noteq> LIBUSB_ERROR_NOT_SUPPORTED
             then (ret, this,
                   evs @ [Log LERROR ''[%04x:%04x] Failed to detach kernel driver: %s''])
             else
               (let r = libusb_claim_interface h handle iface;
                    evs' = evs @ [Host (Call_libusb_claim_interface handle iface)]
                in
                  if r < 0
                  then (r, this,
                        evs' @ [Log LERROR ''[%04x:%04x] Couldn't claim interface %d: %s''])
                  else (0, this\<lparr>m_active_interface := iface\<rparr>, evs'))))"

text \<open>\<^verbatim>\<open>DetachInterface\<close> writes no member: it returns its result and its events.\<close>

definition DetachInterface :: "host \<Rightarrow> LibusbDevice \<Rightarrow> int \<times> event list" where
  "DetachInterface h this =
     (case m_handle this of
        None \<Rightarrow>
          (- 1, [Log LERROR ''[%04x:%04x] Cannot detach without a valid device handle''])
      | Some handle \<Rightarrow>
          (let ret = libusb_release_interface h handle (m_active_interface this);
               evs = [Log LINFO ''[%04x:%04x] Detaching interface %d'',
                      Host (Call_libusb_release_interface handle (m_active_interface this))]
           in
             if ret < 0 \<and> ret \<noteq> LIBUSB_ERROR_NO_DEVICE
             then (ret, evs @ [Log LERROR ''[%04x:%04x] Failed to release interface %d: %s''])
             else (0, evs)))"

text \<open>
  In \<^verbatim>\<open>ChangeInterface\<close>, \<^verbatim>\<open>m_config_descriptors[0]->Get()->bNumInterfaces\<close> indexes the
  vector without a check and dereferences the pointer \<^verbatim>\<open>Get()\<close> returns without one.
\<close>

definition ChangeInterface ::
    "host \<Rightarrow> LibusbDevice \<Rightarrow> u8 \<Rightarrow> fault + (int \<times> LibusbDevice \<times> event list)" where
  "ChangeInterface h this iface =
     (if \<not> m_device_attached this then Inr (LIBUSB_ERROR_NOT_FOUND, this, [])
      else
        (case config_at this 0 of
           Inl e \<Rightarrow> Inl e
         | Inr c \<Rightarrow>
             if iface \<ge> bNumInterfaces c then Inr (LIBUSB_ERROR_NOT_FOUND, this, [])
             else
               (case DetachInterface h this of
                  (ret, evs) \<Rightarrow>
                    if ret < 0
                    then Inr (ret, this, Log LINFO ''[%04x:%04x %d] Changing interface to %d'' # evs)
                    else
                      (case AttachInterface h this iface of
                         (r, this', evs') \<Rightarrow>
                           Inr (r, this',
                                Log LINFO ''[%04x:%04x %d] Changing interface to %d'' # evs @ evs')))))"

definition SetAltSetting :: "host \<Rightarrow> LibusbDevice \<Rightarrow> u8 \<Rightarrow> int \<times> event list" where
  "SetAltSetting h this alt_setting =
     (if \<not> m_device_attached this then (LIBUSB_ERROR_NOT_FOUND, [])
      else
        (libusb_set_interface_alt_setting h (m_handle this) (m_active_interface this) alt_setting,
         [Log LINFO ''[%04x:%04x %d] Setting alt setting %d'',
          Host (Call_libusb_set_interface_alt_setting (m_handle this)
                  (m_active_interface this) alt_setting)]))"

definition Attach ::
    "host \<Rightarrow> LibusbDevice \<Rightarrow> u8 \<Rightarrow> fault + (bool \<times> LibusbDevice \<times> event list)" where
  "Attach h this iface =
     (if m_device_attached this \<and> iface \<noteq> m_active_interface this
      then
        (case ChangeInterface h this iface of
           Inl e \<Rightarrow> Inl e
         | Inr (ret, this', evs) \<Rightarrow> Inr (ret = 0, this', evs))
      else if m_device_attached this then Inr (True, this, [])
      else
        (case libusb_open h (m_handle this) of
           (ret, handle) \<Rightarrow>
             (let this1 = this\<lparr>m_device_attached := False, m_handle := handle\<rparr>;
                  evs = [Log LNOTICE ''[%04x:%04x] Opening device'', Host Call_libusb_open]
              in
                if ret \<noteq> 0
                then Inr (False, this1, evs @ [Log LERROR ''[%04x:%04x] Failed to open: %s''])
                else
                  (case AttachInterface h this1 iface of
                     (r, this2, evs') \<Rightarrow>
                       if r \<noteq> 0 then Inr (False, this2, evs @ evs')
                       else Inr (True, this2\<lparr>m_device_attached := True\<rparr>, evs @ evs')))))"

subsection \<open>The transfer endpoint tracker (lines 311-371)\<close>

text \<open>The operations of \<^verbatim>\<open>std::map\<close> on \<^verbatim>\<open>m_transfers\<close>: \<^verbatim>\<open>find\<close>, \<^verbatim>\<open>emplace\<close>
  (which leaves an existing key alone) and \<^verbatim>\<open>erase\<close> by key.\<close>

definition find_transfer :: "(nat \<times> 'v) list \<Rightarrow> nat \<Rightarrow> 'v option" where
  "find_transfer m k = map_of m k"

definition emplace :: "nat \<Rightarrow> 'v \<Rightarrow> (nat \<times> 'v) list \<Rightarrow> (nat \<times> 'v) list" where
  "emplace k v m =
     (case find_transfer m k of
        Some v' \<Rightarrow> m
      | None \<Rightarrow> insort_key fst (k, v) m)"

definition erase :: "nat \<Rightarrow> (nat \<times> 'v) list \<Rightarrow> (nat \<times> 'v) list" where
  "erase k m = filter (\<lambda>kv. fst kv \<noteq> k) m"

definition s_transfer_types :: "u8 \<rightharpoonup> string" where
  "s_transfer_types =
     map_of
       [(LIBUSB_TRANSFER_TYPE_CONTROL, ''Control''),
        (LIBUSB_TRANSFER_TYPE_ISOCHRONOUS, ''Isochronous''),
        (LIBUSB_TRANSFER_TYPE_BULK, ''Bulk''),
        (LIBUSB_TRANSFER_TYPE_INTERRUPT, ''Interrupt'')]"

definition AddTransfer :: "TransferEndpoint \<Rightarrow> TransferCommand \<Rightarrow> nat \<Rightarrow> TransferEndpoint" where
  "AddTransfer this command transfer =
     this\<lparr>m_transfers := emplace transfer command (m_transfers this)\<rparr>"

text \<open>
  The five failure cases of the switch share one body. Its log line takes
  \<^verbatim>\<open>s_transfer_types.at(transfer->type)\<close> as an argument, which throws for a type that
  is not a key of the table.
\<close>

definition failed_transfer :: "libusb_transfer \<Rightarrow> fault + (event list \<times> int)" where
  "failed_transfer t =
     (case s_transfer_types (transfer_type t) of
        None \<Rightarrow> Inl OutOfRange
      | Some name \<Rightarrow>
          Inr ([Log LERROR ''[%04x:%04x %d] %s transfer (endpoint 0x%02x) failed: %s''],
               if status t = LIBUSB_TRANSFER_STALL then - 7004 else - 5))"

text \<open>
  \<open>transfer\<close> is the pointer, the key of the map; \<open>t\<close> is the struct it points to
  when the host calls back. \<open>fn\<close> returns the calls it made on the command and its
  result, or faults.
\<close>

definition HandleTransfer ::
    "header_constants \<Rightarrow> TransferEndpoint \<Rightarrow> nat \<Rightarrow> libusb_transfer \<Rightarrow>
     (TransferCommand \<Rightarrow> fault + (command_call list \<times> int)) \<Rightarrow>
     fault + (TransferEndpoint \<times> event list)" where
  "HandleTransfer K this transfer t fn =
     (case find_transfer (m_transfers this) transfer of
        None \<Rightarrow> Inr (this, [Log LERROR ''No such transfer''])
      | Some cmd \<Rightarrow>
          (case
             (case status t of
                LIBUSB_TRANSFER_COMPLETED \<Rightarrow>
                  (case fn cmd of
                     Inl e \<Rightarrow> Inl e
                   | Inr (calls, r) \<Rightarrow> Inr (map (CommandCall cmd) calls, r))
              | LIBUSB_TRANSFER_ERROR \<Rightarrow> failed_transfer t
              | LIBUSB_TRANSFER_CANCELLED \<Rightarrow> failed_transfer t
              | LIBUSB_TRANSFER_TIMED_OUT \<Rightarrow> failed_transfer t
              | LIBUSB_TRANSFER_OVERFLOW \<Rightarrow> failed_transfer t
              | LIBUSB_TRANSFER_STALL \<Rightarrow> failed_transfer t
              | LIBUSB_TRANSFER_NO_DEVICE \<Rightarrow> Inr ([], IPC_ENOENT K))
           of
             Inl e \<Rightarrow> Inl e
           | Inr (evs, return_value) \<Rightarrow>
               Inr (this\<lparr>m_transfers := erase transfer (m_transfers this)\<rparr>,
                    evs @ [OnTransferComplete cmd return_value])))"

definition CancelTransfers :: "TransferEndpoint \<Rightarrow> event list" where
  "CancelTransfers this =
     (if m_transfers this = [] then []
      else
        Log LINFO ''Cancelling %ld transfer(s)'' #
        map (\<lambda>pending_transfer. Host (Call_libusb_cancel_transfer (fst pending_transfer)))
          (m_transfers this))"

subsection \<open>Cancelling (lines 148-157)\<close>

definition CancelTransfer ::
    "header_constants \<Rightarrow> LibusbDevice \<Rightarrow> u8 \<Rightarrow> int \<times> LibusbDevice \<times> event list" where
  "CancelTransfer K this ep =
     (case m_transfer_endpoints this ep of
        None \<Rightarrow>
          (IPC_ENOENT K, this,
           [Log LINFO ''[%04x:%04x %d] Cancelling transfers (endpoint 0x%x)''])
      | Some tracker \<Rightarrow>
          (IPC_SUCCESS, this,
           Log LINFO ''[%04x:%04x %d] Cancelling transfers (endpoint 0x%x)'' #
           CancelTransfers tracker))"

subsection \<open>Submitting (lines 182-276)\<close>

text \<open>
  \<^verbatim>\<open>m_transfer_endpoints[n]\<close>: \<^verbatim>\<open>operator[]\<close> of \<^verbatim>\<open>std::map\<close> inserts a default
  constructed tracker under a key that is not there yet.
\<close>

definition tracker_at :: "LibusbDevice \<Rightarrow> u8 \<Rightarrow> TransferEndpoint" where
  "tracker_at this n =
     (case m_transfer_endpoints this n of None \<Rightarrow> \<lparr>m_transfers = []\<rparr> | Some tracker \<Rightarrow> tracker)"

definition set_tracker :: "LibusbDevice \<Rightarrow> u8 \<Rightarrow> TransferEndpoint \<Rightarrow> LibusbDevice" where
  "set_tracker this n tracker =
     this\<lparr>m_transfer_endpoints := (m_transfer_endpoints this)(n \<mapsto> tracker)\<rparr>"

text \<open>
  The tail shared by the four overloads:
  \<^verbatim>\<open>m_transfer_endpoints[...].AddTransfer(std::move(cmd), transfer);
  return libusb_submit_transfer(transfer);\<close>
  after \<^verbatim>\<open>libusb_alloc_transfer(n)\<close> returned \<open>transfer\<close> and the struct was filled to \<open>t\<close>.
\<close>

definition track_and_submit ::
    "host \<Rightarrow> LibusbDevice \<Rightarrow> u8 \<Rightarrow> TransferCommand \<Rightarrow> nat \<Rightarrow> nat \<Rightarrow> libusb_transfer \<Rightarrow>
     int \<times> LibusbDevice \<times> event list" where
  "track_and_submit h this n cmd packets transfer t =
     (libusb_submit_transfer h transfer t,
      set_tracker this n (AddTransfer (tracker_at this n) cmd transfer),
      [Host (Call_libusb_alloc_transfer packets), Host (Call_libusb_submit_transfer transfer t)])"

text \<open>The switch expression \<^verbatim>\<open>(cmd->request_type << 8) | cmd->request\<close>, an \<^verbatim>\<open>int\<close>.\<close>

definition request_key :: "CtrlMessage \<Rightarrow> int" where
  "request_key cmd = push_bit 8 (uint (ctrl_request_type cmd)) OR uint (ctrl_request cmd)"

definition SubmitTransfer_Ctrl ::
    "header_constants \<Rightarrow> host \<Rightarrow> LibusbDevice \<Rightarrow> CtrlMessage \<Rightarrow>
     fault + (int \<times> LibusbDevice \<times> event list)" where
  "SubmitTransfer_Ctrl K h this cmd =
     (if \<not> m_device_attached this then Inr (LIBUSB_ERROR_NOT_FOUND, this, [])
      else if request_key cmd = USBHDR_SET_INTERFACE K then
        (case
           (if (ucast (ctrl_index cmd) :: u8) \<noteq> m_active_interface this
            then ChangeInterface h this (ucast (ctrl_index cmd))
            else Inr (0, this, []))
         of
           Inl e \<Rightarrow> Inl e
         | Inr (ret, this', evs) \<Rightarrow>
             if ret < 0
             then Inr (ret, this',
                       evs @ [Log LERROR ''[%04x:%04x %d] Failed to change interface to %d: %s''])
             else
               (case SetAltSetting h this' (ucast (ctrl_value cmd)) of
                  (ret', evs') \<Rightarrow>
                    Inr (ret', this',
                         evs @ evs' @
                         (if ret' = 0
                          then [EnqueueIPCReply (ctrl_ios_request cmd) (uint (ctrl_length cmd))]
                          else []))))
      else if request_key cmd = USBHDR_SET_CONFIGURATION K then
        (let ret = libusb_set_configuration h (m_handle this) (ctrl_value cmd)
         in
           Inr (ret, this,
                Host (Call_libusb_set_configuration (m_handle this) (ctrl_value cmd)) #
                (if ret = 0
                 then [EnqueueIPCReply (ctrl_ios_request cmd) (uint (ctrl_length cmd))]
                 else [])))
      else
        (case libusb_alloc_transfer h 0 of
           None \<Rightarrow> Inl NullPointer
         | Some transfer \<Rightarrow>
             (let t0 = zeroed_transfer 0;
                  t1 = t0\<lparr>flags := flags t0 OR LIBUSB_TRANSFER_FREE_TRANSFER\<rparr>;
                  t = t1
                    \<lparr>dev_handle := m_handle this,
                     endpoint := 0,
                     transfer_type := LIBUSB_TRANSFER_TYPE_CONTROL,
                     timeout := 0,
                     buffer :=
                       ControlBuffer (ctrl_request_type cmd) (ctrl_request cmd) (ctrl_value cmd)
                         (ctrl_index cmd) (ctrl_length cmd) (ctrl_data_address cmd),
                     transfer_length := int (LIBUSB_CONTROL_SETUP_SIZE + unat (ctrl_length cmd)),
                     callback := Cb_CtrlTransferCallback\<rparr>
              in Inr (track_and_submit h this 0 (Ctrl cmd) 0 transfer t))))"

definition SubmitTransfer_Bulk ::
    "host \<Rightarrow> LibusbDevice \<Rightarrow> BulkMessage \<Rightarrow> fault + (int \<times> LibusbDevice \<times> event list)" where
  "SubmitTransfer_Bulk h this cmd =
     (if \<not> m_device_attached this then Inr (LIBUSB_ERROR_NOT_FOUND, this, [])
      else
        (case libusb_alloc_transfer h 0 of
           None \<Rightarrow> Inl NullPointer
         | Some transfer \<Rightarrow>
             (let t0 = zeroed_transfer 0;
                  t1 = t0
                    \<lparr>dev_handle := m_handle this,
                     endpoint := bulk_endpoint cmd,
                     transfer_type := LIBUSB_TRANSFER_TYPE_BULK,
                     timeout := 0,
                     buffer := MadeBuffer (Bulk cmd) (unat (bulk_length cmd)),
                     transfer_length := uint (bulk_length cmd),
                     callback := Cb_TransferCallback\<rparr>;
                  t = t1\<lparr>flags := flags t1 OR LIBUSB_TRANSFER_FREE_TRANSFER\<rparr>
              in Inr (track_and_submit h this (endpoint t) (Bulk cmd) 0 transfer t))))"

definition SubmitTransfer_Intr ::
    "host \<Rightarrow> LibusbDevice \<Rightarrow> IntrMessage \<Rightarrow> fault + (int \<times> LibusbDevice \<times> event list)" where
  "SubmitTransfer_Intr h this cmd =
     (if \<not> m_device_attached this then Inr (LIBUSB_ERROR_NOT_FOUND, this, [])
      else
        (case libusb_alloc_transfer h 0 of
           None \<Rightarrow> Inl NullPointer
         | Some transfer \<Rightarrow>
             (let t0 = zeroed_transfer 0;
                  t1 = t0
                    \<lparr>dev_handle := m_handle this,
                     endpoint := intr_endpoint cmd,
                     transfer_type := LIBUSB_TRANSFER_TYPE_INTERRUPT,
                     timeout := 0,
                     buffer := MadeBuffer (Intr cmd) (unat (intr_length cmd)),
                     transfer_length := uint (intr_length cmd),
                     callback := Cb_TransferCallback\<rparr>;
                  t = t1\<lparr>flags := flags t1 OR LIBUSB_TRANSFER_FREE_TRANSFER\<rparr>
              in Inr (track_and_submit h this (endpoint t) (Intr cmd) 0 transfer t))))"

definition SubmitTransfer_Iso ::
    "host \<Rightarrow> LibusbDevice \<Rightarrow> IsoMessage \<Rightarrow> fault + (int \<times> LibusbDevice \<times> event list)" where
  "SubmitTransfer_Iso h this cmd =
     (if \<not> m_device_attached this then Inr (LIBUSB_ERROR_NOT_FOUND, this, [])
      else
        (case libusb_alloc_transfer h (unat (iso_num_packets cmd)) of
           None \<Rightarrow> Inl NullPointer
         | Some transfer \<Rightarrow>
             (case for_each (array_at (iso_packet_sizes cmd)) [0 ..< unat (iso_num_packets cmd)] of
                Inl e \<Rightarrow> Inl e
              | Inr sizes \<Rightarrow>
                  (let t0 = zeroed_transfer (unat (iso_num_packets cmd));
                       t = t0
                         \<lparr>buffer := MadeBuffer (Iso cmd) (unat (iso_length cmd)),
                          callback := Cb_TransferCallback,
                          dev_handle := m_handle this,
                          endpoint := iso_endpoint cmd,
                          flags := flags t0 OR LIBUSB_TRANSFER_FREE_TRANSFER,
                          iso_packet_desc :=
                            map (\<lambda>sz. \<lparr>packet_length = ucast sz, packet_actual_length = 0\<rparr>) sizes,
                          transfer_length := uint (iso_length cmd),
                          num_iso_packets := uint (iso_num_packets cmd),
                          timeout := 0,
                          transfer_type := LIBUSB_TRANSFER_TYPE_ISOCHRONOUS\<rparr>
                   in
                     Inr (track_and_submit h this (endpoint t) (Iso cmd)
                            (unat (iso_num_packets cmd)) transfer t)))))"

subsection \<open>Completion callbacks (lines 278-309)\<close>

text \<open>
  Both callbacks index \<^verbatim>\<open>m_transfer_endpoints\<close> with \<^verbatim>\<open>operator[]\<close> and let
  \<^verbatim>\<open>HandleTransfer\<close> work on the tracker in place.
\<close>

definition CtrlTransferCallback_fn ::
    "libusb_transfer \<Rightarrow> TransferCommand \<Rightarrow> fault + (command_call list \<times> int)" where
  "CtrlTransferCallback_fn t cmd =
     Inr ([FillBuffer (buffer t) LIBUSB_CONTROL_SETUP_SIZE (actual_length t)],
          transfer_length t)"

definition CtrlTransferCallback ::
    "header_constants \<Rightarrow> LibusbDevice \<Rightarrow> nat \<Rightarrow> libusb_transfer \<Rightarrow>
     fault + (LibusbDevice \<times> event list)" where
  "CtrlTransferCallback K device transfer t =
     (case HandleTransfer K (tracker_at device 0) transfer t (CtrlTransferCallback_fn t) of
        Inl e \<Rightarrow> Inl e
      | Inr (tracker, evs) \<Rightarrow> Inr (set_tracker device 0 tracker, evs))"

text \<open>
  The isochronous case casts the command to \<^verbatim>\<open>IsoMessage\<close> without a check and reads
  \<^verbatim>\<open>transfer->iso_packet_desc[i]\<close> for every \<open>i\<close> below the command's \<^verbatim>\<open>num_packets\<close>.
  \<^verbatim>\<open>iso_msg.SetPacketReturnValue(i, transfer->iso_packet_desc[i].actual_length)\<close> passes
  an \<^verbatim>\<open>unsigned int\<close> for the \<^verbatim>\<open>u16\<close> return value: the call keeps its low 16 bits.
\<close>

fun iso_packets ::
    "libusb_iso_packet_descriptor list \<Rightarrow> nat list \<Rightarrow> fault + command_call list" where
  "iso_packets descs [] = Inr []"
| "iso_packets descs (i # rest) =
     (case array_at descs i of
        Inl e \<Rightarrow> Inl e
      | Inr d \<Rightarrow>
          (case iso_packets descs rest of
             Inl e \<Rightarrow> Inl e
           | Inr calls \<Rightarrow>
               Inr (SetPacketReturnValue i (ucast (packet_actual_length d)) # calls)))"

definition TransferCallback_fn ::
    "libusb_transfer \<Rightarrow> TransferCommand \<Rightarrow> fault + (command_call list \<times> int)" where
  "TransferCallback_fn t cmd =
     (if transfer_type t = LIBUSB_TRANSFER_TYPE_ISOCHRONOUS then
        (case cmd of
           Iso iso_msg \<Rightarrow>
             (case iso_packets (iso_packet_desc t) [0 ..< unat (iso_num_packets iso_msg)] of
                Inl e \<Rightarrow> Inl e
              | Inr calls \<Rightarrow>
                  Inr (FillBuffer (buffer t) 0 (uint (iso_length iso_msg)) # calls, IPC_SUCCESS))
         | _ \<Rightarrow> Inl BadCast)
      else Inr ([FillBuffer (buffer t) 0 (actual_length t)], actual_length t))"

definition TransferCallback ::
    "header_constants \<Rightarrow> LibusbDevice \<Rightarrow> nat \<Rightarrow> libusb_transfer \<Rightarrow>
     fault + (LibusbDevice \<times> event list)" where
  "TransferCallback K device transfer t =
     (case HandleTransfer K (tracker_at device (endpoint t)) transfer t (TransferCallback_fn t) of
        Inl e \<Rightarrow> Inl e
      | Inr (tracker, evs) \<Rightarrow> Inr (set_tracker device (endpoint t) tracker, evs))"

subsection \<open>Reading event lists\<close>

text \<open>The host calls, the terminal callbacks and the IPC replies among the events
  of a call, each in program order.\<close>

fun host_calls :: "event list \<Rightarrow> host_call list" where
  "host_calls [] = []"
| "host_calls (Host c # evs) = c # host_calls evs"
| "host_calls (e # evs) = host_calls evs"

fun terminal_callbacks :: "event list \<Rightarrow> (TransferCommand \<times> int) list" where
  "terminal_callbacks [] = []"
| "terminal_callbacks (OnTransferComplete cmd v # evs) = (cmd, v) # terminal_callbacks evs"
| "terminal_callbacks (e # evs) = terminal_callbacks evs"

fun ipc_replies :: "event list \<Rightarrow> (Request \<times> int) list" where
  "ipc_replies [] = []"
| "ipc_replies (EnqueueIPCReply request v # evs) = (request, v) # ipc_replies evs"
| "ipc_replies (e # evs) = ipc_replies evs"

text \<open>The two host calls that build and hand over a transfer.\<close>

fun is_transfer_call :: "host_call \<Rightarrow> bool" where
  "is_transfer_call (Call_libusb_alloc_transfer n) = True"
| "is_transfer_call (Call_libusb_submit_transfer transfer t) = True"
| "is_transfer_call c = False"

subsection \<open>Sample values\<close>

text \<open>
  Concrete values at which the properties below are evaluated: values for the header
  constants, a host on which every call succeeds, a device with one configuration of
  two interfaces, and one command of each kind.
\<close>

definition sample_constants :: header_constants where
  "sample_constants =
     \<lparr>IPC_ENOENT = - 6, USBHDR_SET_INTERFACE = 0x010B, USBHDR_SET_CONFIGURATION = 0x0009\<rparr>"

definition sample_interface :: "u8 \<Rightarrow> libusb_interface" where
  "sample_interface n =
     \<lparr>altsetting =
        [\<lparr>interface_head = [9, 4, n, 0, 1],
          bNumEndpoints = 1,
          endpoint_array = [\<lparr>endpoint_head = [7, 5, 0x81, 2]\<rparr>]\<rparr>],
      num_altsetting = 1\<rparr>"

definition sample_config :: libusb_config_descriptor where
  "sample_config =
     \<lparr>config_head = [9, 2, 32, 0, 2],
      bNumInterfaces = 2,
      interface = [sample_interface 0, sample_interface 1]\<rparr>"

definition sample_host :: host where
  "sample_host =
     \<lparr>libusb_get_bus_number = 1,
      libusb_get_device_address = 2,
      libusb_get_config_descriptor =
        (\<lambda>n. if n = 0 then (0, Some sample_config) else (- 5, None)),
      libusb_open = (\<lambda>old. (0, Some 7)),
      libusb_detach_kernel_driver = (\<lambda>handle n. 0),
      libusb_claim_interface = (\<lambda>handle n. 0),
      libusb_release_interface = (\<lambda>handle n. 0),
      libusb_set_interface_alt_setting = (\<lambda>handle n a. 0),
      libusb_set_configuration = (\<lambda>handle v. 0),
      libusb_alloc_transfer = (\<lambda>n. Some 16),
      libusb_submit_transfer = (\<lambda>transfer t. 0)\<rparr>"

text \<open>The members before the constructor body runs, and the constructed device.\<close>

definition fresh_members :: LibusbDevice where
  "fresh_members =
     \<lparr>m_vid = 0, m_pid = 0, m_id = 0, m_config_descriptors = [],
      m_device_attached = False, m_active_interface = 0, m_handle = None,
      m_transfer_endpoints = Map.empty\<rparr>"

definition sample_device :: LibusbDevice where
  "sample_device =
     LibusbDevice_ctor sample_host
       \<lparr>idVendor = 0x057E, idProduct = 0x0306, bNumConfigurations = 2\<rparr> fresh_members"

text \<open>The sample device once interface 0 is attached through handle 7.\<close>

definition attached_device :: LibusbDevice where
  "attached_device = sample_device\<lparr>m_device_attached := True, m_handle := Some 7\<rparr>"

definition sample_ctrl :: CtrlMessage where
  "sample_ctrl =
     \<lparr>ctrl_ios_request = 0x1000, ctrl_data_address = 0x2000, ctrl_request_type = 0x80,
      ctrl_request = 6, ctrl_value = 0x0100, ctrl_index = 0, ctrl_length = 18\<rparr>"

definition sample_bulk :: BulkMessage where
  "sample_bulk =
     \<lparr>bulk_ios_request = 0x1000, bulk_data_address = 0x2000, bulk_length = 64,
      bulk_endpoint = 0x81\<rparr>"

definition sample_iso :: IsoMessage where
  "sample_iso =
     \<lparr>iso_ios_request = 0x1000, iso_data_address = 0x2000, iso_packet_sizes = [8, 16],
      iso_length = 24, iso_num_packets = 2, iso_endpoint = 0x82\<rparr>"

text \<open>A tracker holding the bulk command under transfer 16, and the transfer as the
  host hands it back: completed with 64 bytes.\<close>

definition sample_tracker :: TransferEndpoint where
  "sample_tracker = \<lparr>m_transfers = [(16, Bulk sample_bulk)]\<rparr>"

definition sample_transfer :: libusb_transfer where
  "sample_transfer =
     (zeroed_transfer 0)
       \<lparr>dev_handle := Some 7, flags := LIBUSB_TRANSFER_FREE_TRANSFER, endpoint := 0x81,
        transfer_type := LIBUSB_TRANSFER_TYPE_BULK,
        buffer := MadeBuffer (Bulk sample_bulk) 64, transfer_length := 64,
        actual_length := 64, callback := Cb_TransferCallback\<rparr>"

text \<open>An isochronous transfer of two packets handed back with 8 and 3 bytes.\<close>

definition sample_iso_transfer :: libusb_transfer where
  "sample_iso_transfer =
     (zeroed_transfer 0)
       \<lparr>dev_handle := Some 7, flags := LIBUSB_TRANSFER_FREE_TRANSFER, endpoint := 0x82,
        transfer_type := LIBUSB_TRANSFER_TYPE_ISOCHRONOUS,
        buffer := MadeBuffer (Iso sample_iso) 24, transfer_length := 24,
        actual_length := 0, callback := Cb_TransferCallback, num_iso_packets := 2,
        iso_packet_desc :=
          [\<lparr>packet_length = 8, packet_actual_length = 8\<rparr>,
           \<lparr>packet_length = 16, packet_actual_length = 3\<rparr>]\<rparr>"

text \<open>The attached device with the isochronous command tracked under transfer 16.\<close>

definition iso_device :: LibusbDevice where
  "iso_device = set_tracker attached_device 0x82 \<lparr>m_transfers = [(16, Iso sample_iso)]\<rparr>"

text \<open>The attached device with the bulk command tracked under transfer 16, and the
  same device once that transfer has completed: the tracker of endpoint 0x81 is still
  there, and empty.\<close>

definition bulk_device :: LibusbDevice where
  "bulk_device = set_tracker attached_device 0x81 sample_tracker"

definition drained_device :: LibusbDevice where
  "drained_device = set_tracker attached_device 0x81 \<lparr>m_transfers = []\<rparr>"

definition sample_intr :: IntrMessage where
  "sample_intr =
     \<lparr>intr_ios_request = 0x1000, intr_data_address = 0x2000, intr_length = 8,
      intr_endpoint = 0x83\<rparr>"

text \<open>The attached device with the control command tracked under transfer 16, and the
  control transfer as the host hands it back: completed with 18 bytes of data.\<close>

definition ctrl_device :: LibusbDevice where
  "ctrl_device = set_tracker attached_device 0 \<lparr>m_transfers = [(16, Ctrl sample_ctrl)]\<rparr>"

definition sample_ctrl_transfer :: libusb_transfer where
  "sample_ctrl_transfer =
     (zeroed_transfer 0)
       \<lparr>dev_handle := Some 7, flags := LIBUSB_TRANSFER_FREE_TRANSFER, endpoint := 0,
        transfer_type := LIBUSB_TRANSFER_TYPE_CONTROL,
        buffer := ControlBuffer 0x80 6 0x0100 0 18 0x2000, transfer_length := 26,
        actual_length := 18, callback := Cb_CtrlTransferCallback\<rparr>"



text \<open>A host that refuses to release an interface.\<close>

definition busy_host :: host where
  "busy_host = sample_host\<lparr>libusb_release_interface := (\<lambda>handle n. - 1)\<rparr>"


section \<open>Properties\<close>

subsection \<open>Event lists\<close>

lemma host_calls_append: "host_calls (xs @ ys) = host_calls xs @ host_calls ys"
  by (induction xs rule: host_calls.induct) simp_all

lemma terminal_callbacks_append:
  "terminal_callbacks (xs @ ys) = terminal_callbacks xs @ terminal_callbacks ys"
  by (induction xs rule: terminal_callbacks.induct) simp_all

lemma ipc_replies_append: "ipc_replies (xs @ ys) = ipc_replies xs @ ipc_replies ys"
  by (induction xs rule: ipc_replies.induct) simp_all

lemma terminal_callbacks_CommandCall:
  "terminal_callbacks (map (CommandCall cmd) calls) = []"
  by (induction calls) simp_all

subsection \<open>The sample values\<close>

lemma attached_device_attached: "m_device_attached attached_device"
  by (simp add: attached_device_def)

lemma attached_device_config: "config_at attached_device 0 = Inr sample_config"
  by (simp add: config_at_def array_at_def attached_device_def sample_device_def
      LibusbDevice_ctor_def fresh_members_def upt_rec LibusbConfigDescriptor_ctor_def
      sample_host_def Get_def LIBUSB_SUCCESS_def)

lemma attached_device_fields:
  "m_handle attached_device = Some 7" "m_active_interface attached_device = 0"
  by (simp_all add: attached_device_def sample_device_def LibusbDevice_ctor_def fresh_members_def)

lemma sample_alloc: "libusb_alloc_transfer sample_host n = Some 16"
  by (simp add: sample_host_def)

lemma attached_device_no_tracker: "m_transfer_endpoints attached_device n = None"
  by (simp add: attached_device_def sample_device_def LibusbDevice_ctor_def fresh_members_def)

lemma sample_ctrl_key: "request_key sample_ctrl = 0x8006"
  by (simp add: request_key_def sample_ctrl_def)

lemma sample_device_fields:
  "\<not> m_device_attached sample_device" "m_handle sample_device = None"
  "m_active_interface sample_device = 0"
  by (simp_all add: sample_device_def LibusbDevice_ctor_def fresh_members_def)

lemma sample_host_results:
  "libusb_open sample_host old = (0, Some 7)"
  "libusb_detach_kernel_driver sample_host handle n = 0"
  "libusb_claim_interface sample_host handle n = 0"
  "libusb_release_interface sample_host handle n = 0"
  by (simp_all add: sample_host_def)

lemma busy_host_results:
  "libusb_release_interface busy_host handle n = - 1"
  "libusb_detach_kernel_driver busy_host handle n = 0"
  "libusb_claim_interface busy_host handle n = 0"
  by (simp_all add: busy_host_def sample_host_def)

lemma sample_config_interfaces: "1 < bNumInterfaces sample_config"
  by (simp add: sample_config_def word_less_nat_alt)

lemma sample_device_configs:
  "m_config_descriptors sample_device = [\<lparr>m_descriptor = Some sample_config\<rparr>, \<lparr>m_descriptor = None\<rparr>]"
  by (simp add: sample_device_def LibusbDevice_ctor_def fresh_members_def upt_rec
      LibusbConfigDescriptor_ctor_def sample_host_def LIBUSB_SUCCESS_def)

lemma known_transfer_types:
  "s_transfer_types LIBUSB_TRANSFER_TYPE_CONTROL = Some ''Control''"
  "s_transfer_types LIBUSB_TRANSFER_TYPE_ISOCHRONOUS = Some ''Isochronous''"
  "s_transfer_types LIBUSB_TRANSFER_TYPE_BULK = Some ''Bulk''"
  "s_transfer_types LIBUSB_TRANSFER_TYPE_INTERRUPT = Some ''Interrupt''"
  by (simp_all add: s_transfer_types_def LIBUSB_TRANSFER_TYPE_CONTROL_def
      LIBUSB_TRANSFER_TYPE_ISOCHRONOUS_def LIBUSB_TRANSFER_TYPE_BULK_def
      LIBUSB_TRANSFER_TYPE_INTERRUPT_def)

subsection \<open>Device identity\<close>

text \<open>Each of the four fields can be read back from the identifier the constructor builds.\<close>

lemma id_device_address:
  "(ucast (push_bit 32 (ucast (v::u16) :: u64) OR push_bit 16 (ucast (p::u16) :: u64) OR
      push_bit 8 (ucast (b::u8) :: u64) OR (ucast (a::u8) :: u64)) :: u8) = a"
  by (rule bit_word_eqI) (auto simp: bit_simps dest: bit_imp_le_length)

lemma id_bus_number:
  "(ucast (drop_bit 8 (push_bit 32 (ucast (v::u16) :: u64) OR push_bit 16 (ucast (p::u16) :: u64) OR
      push_bit 8 (ucast (b::u8) :: u64) OR (ucast (a::u8) :: u64))) :: u8) = b"
  by (rule bit_word_eqI) (auto simp: bit_simps dest: bit_imp_le_length)

lemma id_product:
  "(ucast (drop_bit 16 (push_bit 32 (ucast (v::u16) :: u64) OR push_bit 16 (ucast (p::u16) :: u64) OR
      push_bit 8 (ucast (b::u8) :: u64) OR (ucast (a::u8) :: u64))) :: u16) = p"
  by (rule bit_word_eqI) (auto simp: bit_simps dest: bit_imp_le_length)

lemma id_vendor:
  "(ucast (drop_bit 32 (push_bit 32 (ucast (v::u16) :: u64) OR push_bit 16 (ucast (p::u16) :: u64) OR
      push_bit 8 (ucast (b::u8) :: u64) OR (ucast (a::u8) :: u64))) :: u16) = v"
  by (rule bit_word_eqI) (auto simp: bit_simps dest: bit_imp_le_length)

lemma m_id_ctor:
  "m_id (LibusbDevice_ctor h d this) =
     push_bit 32 (ucast (idVendor d) :: u64) OR push_bit 16 (ucast (idProduct d) :: u64) OR
     push_bit 8 (ucast (libusb_get_bus_number h) :: u64) OR
     (ucast (libusb_get_device_address h) :: u64)"
  by (simp add: LibusbDevice_ctor_def)

text \<open>
  C9. Two constructed devices have the same 64-bit identifier exactly when they agree
  on vendor id, product id, bus number and device address: devices that differ in any
  of the four, the bus number or the address included, get distinct identifiers.
\<close>

theorem device_id_injective:
  "(m_id (LibusbDevice_ctor h d this) = m_id (LibusbDevice_ctor h' d' this')) =
   (idVendor d = idVendor d' \<and> idProduct d = idProduct d' \<and>
    libusb_get_bus_number h = libusb_get_bus_number h' \<and>
    libusb_get_device_address h = libusb_get_device_address h')"
proof
  assume eq: "m_id (LibusbDevice_ctor h d this) = m_id (LibusbDevice_ctor h' d' this')"
  have "idVendor d = idVendor d'"
    using arg_cong [OF eq, of "\<lambda>w. (ucast (drop_bit 32 w) :: u16)"]
    by (simp only: m_id_ctor id_vendor)
  moreover have "idProduct d = idProduct d'"
    using arg_cong [OF eq, of "\<lambda>w. (ucast (drop_bit 16 w) :: u16)"]
    by (simp only: m_id_ctor id_product)
  moreover have "libusb_get_bus_number h = libusb_get_bus_number h'"
    using arg_cong [OF eq, of "\<lambda>w. (ucast (drop_bit 8 w) :: u8)"]
    by (simp only: m_id_ctor id_bus_number)
  moreover have "libusb_get_device_address h = libusb_get_device_address h'"
    using arg_cong [OF eq, of "\<lambda>w. (ucast w :: u8)"]
    by (simp only: m_id_ctor id_device_address)
  ultimately show "idVendor d = idVendor d' \<and> idProduct d = idProduct d' \<and>
    libusb_get_bus_number h = libusb_get_bus_number h' \<and>
    libusb_get_device_address h = libusb_get_device_address h'"
    by simp
next
  assume "idVendor d = idVendor d' \<and> idProduct d = idProduct d' \<and>
    libusb_get_bus_number h = libusb_get_bus_number h' \<and>
    libusb_get_device_address h = libusb_get_device_address h'"
  then show "m_id (LibusbDevice_ctor h d this) = m_id (LibusbDevice_ctor h' d' this')"
    by (simp add: m_id_ctor)
qed

subsection \<open>Descriptors\<close>

lemma GetConfigurations_loop_skips:
  "fst (GetConfigurations_loop cds) = map config_head (List.map_filter m_descriptor cds) \<and>
   snd (GetConfigurations_loop cds) =
     map (\<lambda>c. Log LERROR ''Ignoring invalid config descriptor for %04x:%04x'')
       (filter (\<lambda>c. \<not> IsValid c) cds)"
  by (induction cds)
    (auto simp: IsValid_def Get_def split: prod.splits option.splits)

text \<open>
  C8, as the code has it. A configuration descriptor is valid exactly when
  \<^verbatim>\<open>libusb_get_config_descriptor\<close> succeeded and handed one out; the constructor of the
  device keeps one entry per configuration, readable or not, and cannot fail.
  \<^verbatim>\<open>GetConfigurations\<close> returns the valid entries in order and logs once per invalid
  one. For a config index that is out of range or invalid, \<^verbatim>\<open>GetInterfaces\<close> and
  \<^verbatim>\<open>GetEndpoints\<close> return the empty list and one logged diagnostic. For a valid config
  index \<^verbatim>\<open>GetEndpoints\<close> asserts that the interface number and the alternate setting
  are in range: out of range they fail the assertion.
\<close>

theorem config_descriptors_degrade:
  "(IsValid (LibusbConfigDescriptor_ctor h n) =
      (fst (libusb_get_config_descriptor h n) = LIBUSB_SUCCESS \<and>
       snd (libusb_get_config_descriptor h n) \<noteq> None)) \<and>
   m_config_descriptors (LibusbDevice_ctor h descriptor this) =
     m_config_descriptors this @
     map (\<lambda>i. LibusbConfigDescriptor_ctor h (of_nat i))
       [0 ..< unat (bNumConfigurations descriptor)] \<and>
   fst (GetConfigurations this) =
     map config_head (List.map_filter m_descriptor (m_config_descriptors this)) \<and>
   snd (GetConfigurations this) =
     map (\<lambda>c. Log LERROR ''Ignoring invalid config descriptor for %04x:%04x'')
       (filter (\<lambda>c. \<not> IsValid c) (m_config_descriptors this)) \<and>
   (length (m_config_descriptors this) \<le> unat config \<or>
    \<not> IsValid (m_config_descriptors this ! unat config) \<longrightarrow>
      GetInterfaces this config =
        Inr ([], [Log LERROR ''Invalid config descriptor %u for %04x:%04x'']) \<and>
      GetEndpoints this config interface_number alt_setting =
        Inr ([], [Log LERROR ''Invalid config descriptor %u for %04x:%04x''])) \<and>
   (unat config < length (m_config_descriptors this) \<and>
    m_descriptor (m_config_descriptors this ! unat config) = Some c \<and>
    \<not> interface_number < bNumInterfaces c \<longrightarrow>
      GetEndpoints this config interface_number alt_setting = Inl AssertFailed) \<and>
   (unat config < length (m_config_descriptors this) \<and>
    m_descriptor (m_config_descriptors this ! unat config) = Some c \<and>
    interface_number < bNumInterfaces c \<and>
    unat interface_number < length (interface c) \<and>
    \<not> uint alt_setting < num_altsetting (interface c ! unat interface_number) \<longrightarrow>
      GetEndpoints this config interface_number alt_setting = Inl AssertFailed)"
proof (intro conjI impI)
  show "IsValid (LibusbConfigDescriptor_ctor h n) =
      (fst (libusb_get_config_descriptor h n) = LIBUSB_SUCCESS \<and>
       snd (libusb_get_config_descriptor h n) \<noteq> None)"
    by (simp add: IsValid_def LibusbConfigDescriptor_ctor_def split: prod.splits)
next
  show "m_config_descriptors (LibusbDevice_ctor h descriptor this) =
     m_config_descriptors this @
     map (\<lambda>i. LibusbConfigDescriptor_ctor h (of_nat i))
       [0 ..< unat (bNumConfigurations descriptor)]"
    by (simp add: LibusbDevice_ctor_def)
next
  show "fst (GetConfigurations this) =
     map config_head (List.map_filter m_descriptor (m_config_descriptors this))"
    by (simp add: GetConfigurations_def GetConfigurations_loop_skips)
next
  show "snd (GetConfigurations this) =
     map (\<lambda>c. Log LERROR ''Ignoring invalid config descriptor for %04x:%04x'')
       (filter (\<lambda>c. \<not> IsValid c) (m_config_descriptors this))"
    by (simp add: GetConfigurations_def GetConfigurations_loop_skips)
next
  assume "length (m_config_descriptors this) \<le> unat config \<or>
    \<not> IsValid (m_config_descriptors this ! unat config)"
  then have inv: "invalid_config this config"
    by (simp add: invalid_config_def)
  show "GetInterfaces this config =
        Inr ([], [Log LERROR ''Invalid config descriptor %u for %04x:%04x''])"
    using inv by (simp add: GetInterfaces_def)
  show "GetEndpoints this config interface_number alt_setting =
        Inr ([], [Log LERROR ''Invalid config descriptor %u for %04x:%04x''])"
    using inv by (simp add: GetEndpoints_def)
next
  assume "unat config < length (m_config_descriptors this) \<and>
    m_descriptor (m_config_descriptors this ! unat config) = Some c \<and>
    \<not> interface_number < bNumInterfaces c"
  then show "GetEndpoints this config interface_number alt_setting = Inl AssertFailed"
    by (simp add: GetEndpoints_def invalid_config_def IsValid_def config_at_def array_at_def
        Get_def)
next
  assume "unat config < length (m_config_descriptors this) \<and>
    m_descriptor (m_config_descriptors this ! unat config) = Some c \<and>
    interface_number < bNumInterfaces c \<and>
    unat interface_number < length (interface c) \<and>
    \<not> uint alt_setting < num_altsetting (interface c ! unat interface_number)"
  then show "GetEndpoints this config interface_number alt_setting = Inl AssertFailed"
    by (simp add: GetEndpoints_def invalid_config_def IsValid_def config_at_def array_at_def
        Get_def)
qed

theorem config_descriptors_degrade_witness:
  "IsValid (LibusbConfigDescriptor_ctor sample_host 0) \<and>
   \<not> IsValid (LibusbConfigDescriptor_ctor sample_host 1) \<and>
   m_config_descriptors sample_device =
     [\<lparr>m_descriptor = Some sample_config\<rparr>, \<lparr>m_descriptor = None\<rparr>] \<and>
   GetConfigurations sample_device =
     ([[9, 2, 32, 0, 2]], [Log LERROR ''Ignoring invalid config descriptor for %04x:%04x'']) \<and>
   \<not> IsValid (m_config_descriptors sample_device ! unat (1 :: u8)) \<and>
   GetInterfaces sample_device 1 =
     Inr ([], [Log LERROR ''Invalid config descriptor %u for %04x:%04x'']) \<and>
   GetEndpoints sample_device 1 0 0 =
     Inr ([], [Log LERROR ''Invalid config descriptor %u for %04x:%04x'']) \<and>
   length (m_config_descriptors sample_device) \<le> unat (2 :: u8) \<and>
   GetInterfaces sample_device 2 =
     Inr ([], [Log LERROR ''Invalid config descriptor %u for %04x:%04x'']) \<and>
   GetEndpoints sample_device 2 0 0 =
     Inr ([], [Log LERROR ''Invalid config descriptor %u for %04x:%04x'']) \<and>
   unat (0 :: u8) < length (m_config_descriptors sample_device) \<and>
   m_descriptor (m_config_descriptors sample_device ! unat (0 :: u8)) = Some sample_config \<and>
   \<not> 2 < bNumInterfaces sample_config \<and>
   GetEndpoints sample_device 0 2 0 = Inl AssertFailed \<and>
   1 < bNumInterfaces sample_config \<and>
   unat (1 :: u8) < length (interface sample_config) \<and>
   \<not> uint (1 :: u8) < num_altsetting (interface sample_config ! unat (1 :: u8)) \<and>
   GetEndpoints sample_device 0 1 1 = Inl AssertFailed"
proof -
  note T = config_descriptors_degrade
    [where h = sample_host and this = sample_device]
  have v0: "IsValid (LibusbConfigDescriptor_ctor sample_host 0)"
    using T [of 0] by (simp add: sample_host_def LIBUSB_SUCCESS_def)
  have v1: "\<not> IsValid (LibusbConfigDescriptor_ctor sample_host 1)"
    using T [of 1] by (simp add: sample_host_def LIBUSB_SUCCESS_def)
  have g: "GetConfigurations sample_device =
     ([[9, 2, 32, 0, 2]], [Log LERROR ''Ignoring invalid config descriptor for %04x:%04x''])"
    using T [of 0] 
    by (simp add: prod_eq_iff sample_device_configs IsValid_def sample_config_def)
  have i1: "\<not> IsValid (m_config_descriptors sample_device ! unat (1 :: u8))"
    by (simp add: sample_device_configs IsValid_def)
  have i2: "length (m_config_descriptors sample_device) \<le> unat (2 :: u8)"
    by (simp add: sample_device_configs)
  have r1: "GetInterfaces sample_device 1 =
     Inr ([], [Log LERROR ''Invalid config descriptor %u for %04x:%04x''])"
     "GetEndpoints sample_device 1 0 0 =
     Inr ([], [Log LERROR ''Invalid config descriptor %u for %04x:%04x''])"
    using T [where config = 1 and interface_number = 0 and alt_setting = 0] i1 by simp_all
  have r2: "GetInterfaces sample_device 2 =
     Inr ([], [Log LERROR ''Invalid config descriptor %u for %04x:%04x''])"
     "GetEndpoints sample_device 2 0 0 =
     Inr ([], [Log LERROR ''Invalid config descriptor %u for %04x:%04x''])"
    using T [where config = 2 and interface_number = 0 and alt_setting = 0] i2 by simp_all
  have c0: "unat (0 :: u8) < length (m_config_descriptors sample_device)"
    "m_descriptor (m_config_descriptors sample_device ! unat (0 :: u8)) = Some sample_config"
    by (simp_all add: sample_device_configs)
  have n2: "\<not> 2 < bNumInterfaces sample_config" "1 < bNumInterfaces sample_config"
    "unat (1 :: u8) < length (interface sample_config)"
    "\<not> uint (1 :: u8) < num_altsetting (interface sample_config ! unat (1 :: u8))"
    by (simp_all add: sample_config_def sample_interface_def word_less_nat_alt)
  have a1: "GetEndpoints sample_device 0 2 0 = Inl AssertFailed"
    using T [where config = 0 and c = sample_config and interface_number = 2
        and alt_setting = 0] c0 n2 by simp
  have a2: "GetEndpoints sample_device 0 1 1 = Inl AssertFailed"
    using T [where config = 0 and c = sample_config and interface_number = 1
        and alt_setting = 1] c0 n2 by simp
  show ?thesis
    using v0 v1 sample_device_configs g i1 i2 r1 r2 c0 n2 a1 a2 by simp
qed

text \<open>
  An index out of range does not always give an empty list: the valid configuration 0
  of the sample device has two interfaces with one alternate setting each, and
  \<^verbatim>\<open>GetEndpoints\<close> fails its assertion for interface 2, and for alternate setting 1 of
  interface 1.
\<close>

theorem GetEndpoints_interface_out_of_range_counterexample:
  "\<not> length (m_config_descriptors sample_device) \<le> unat (0 :: u8) \<and>
   IsValid (m_config_descriptors sample_device ! unat (0 :: u8)) \<and>
   config_at sample_device 0 = Inr sample_config \<and>
   bNumInterfaces sample_config = 2 \<and>
   GetEndpoints sample_device 0 1 0 = Inr ([[7, 5, 0x81, 2]], []) \<and>
   GetEndpoints sample_device 0 2 0 = Inl AssertFailed \<and>
   GetEndpoints sample_device 0 1 1 = Inl AssertFailed"
  by (simp add: sample_device_configs IsValid_def config_at_def array_at_def Get_def
      GetEndpoints_def invalid_config_def sample_config_def sample_interface_def
      word_less_nat_alt upt_rec)

subsection \<open>Interfaces\<close>

text \<open>
  C7. On an attached device whose first configuration has the requested interface,
  \<^verbatim>\<open>ChangeInterface\<close> returns, and its host calls are the release of the active
  interface followed by the calls of \<^verbatim>\<open>AttachInterface\<close>: detaching the kernel driver
  of the new interface, then claiming it. When \<^verbatim>\<open>DetachInterface\<close> returns a negative
  code, that code is returned, nothing of \<^verbatim>\<open>AttachInterface\<close> is called and the device
  is unchanged. \<^verbatim>\<open>m_active_interface\<close> is assigned in the one case where the claim
  succeeded; in every other case the device is unchanged.
\<close>

theorem ChangeInterface_detach_then_attach:
  assumes attached: "m_device_attached this"
      and config: "config_at this 0 = Inr c"
      and range: "iface < bNumInterfaces c"
  shows "\<exists>ret this' evs.
     ChangeInterface h this iface = Inr (ret, this', evs) \<and>
     (fst (DetachInterface h this) < 0 \<longrightarrow>
        ret = fst (DetachInterface h this) \<and> this' = this \<and>
        host_calls evs = host_calls (snd (DetachInterface h this))) \<and>
     (case m_handle this of
        None \<Rightarrow> ret = - 1 \<and> this' = this \<and> host_calls evs = []
      | Some handle \<Rightarrow>
          if libusb_release_interface h handle (m_active_interface this) < 0 \<and>
             libusb_release_interface h handle (m_active_interface this) \<noteq> LIBUSB_ERROR_NO_DEVICE
          then
            ret = libusb_release_interface h handle (m_active_interface this) \<and> this' = this \<and>
            host_calls evs = [Call_libusb_release_interface handle (m_active_interface this)]
          else if libusb_detach_kernel_driver h handle iface < 0 \<and>
             libusb_detach_kernel_driver h handle iface \<noteq> LIBUSB_ERROR_NOT_FOUND \<and>
             libusb_detach_kernel_driver h handle iface \<noteq> LIBUSB_ERROR_NOT_SUPPORTED
          then
            ret = libusb_detach_kernel_driver h handle iface \<and> this' = this \<and>
            host_calls evs =
              [Call_libusb_release_interface handle (m_active_interface this),
               Call_libusb_detach_kernel_driver handle iface]
          else if libusb_claim_interface h handle iface < 0
          then
            ret = libusb_claim_interface h handle iface \<and> this' = this \<and>
            host_calls evs =
              [Call_libusb_release_interface handle (m_active_interface this),
               Call_libusb_detach_kernel_driver handle iface,
               Call_libusb_claim_interface handle iface]
          else
            ret = 0 \<and> this' = this\<lparr>m_active_interface := iface\<rparr> \<and>
            host_calls evs =
              [Call_libusb_release_interface handle (m_active_interface this),
               Call_libusb_detach_kernel_driver handle iface,
               Call_libusb_claim_interface handle iface])"
proof -
  have inside: "\<not> bNumInterfaces c \<le> iface"
    using range by (simp add: not_le)
  show ?thesis
  proof (cases "m_handle this")
    case None
    then show ?thesis
      using attached config inside
      by (simp add: ChangeInterface_def DetachInterface_def)
  next
    case (Some handle)
    then show ?thesis
      using attached config inside
      by (simp add: ChangeInterface_def DetachInterface_def AttachInterface_def Let_def)
  qed
qed

theorem ChangeInterface_detach_then_attach_witness:
  "m_device_attached attached_device \<and>
   config_at attached_device 0 = Inr sample_config \<and>
   1 < bNumInterfaces sample_config \<and>
   (\<exists>evs. ChangeInterface sample_host attached_device 1 =
            Inr (0, attached_device\<lparr>m_active_interface := 1\<rparr>, evs) \<and>
          host_calls evs =
            [Call_libusb_release_interface 7 0, Call_libusb_detach_kernel_driver 7 1,
             Call_libusb_claim_interface 7 1]) \<and>
   fst (DetachInterface busy_host attached_device) < 0 \<and>
   (\<exists>evs. ChangeInterface busy_host attached_device 1 = Inr (- 1, attached_device, evs) \<and>
          host_calls evs = [Call_libusb_release_interface 7 0])"
proof -
  note T = ChangeInterface_detach_then_attach
    [OF attached_device_attached attached_device_config sample_config_interfaces]
  have a: "\<exists>evs. ChangeInterface sample_host attached_device 1 =
            Inr (0, attached_device\<lparr>m_active_interface := 1\<rparr>, evs) \<and>
          host_calls evs =
            [Call_libusb_release_interface 7 0, Call_libusb_detach_kernel_driver 7 1,
             Call_libusb_claim_interface 7 1]"
    using T [of sample_host] by (auto simp: attached_device_fields sample_host_results)
  have d: "fst (DetachInterface busy_host attached_device) < 0"
    by (simp add: DetachInterface_def attached_device_fields busy_host_results
        LIBUSB_ERROR_NO_DEVICE_def)
  have b: "\<exists>evs. ChangeInterface busy_host attached_device 1 = Inr (- 1, attached_device, evs) \<and>
          host_calls evs = [Call_libusb_release_interface 7 0]"
    using T [of busy_host]
    by (auto simp: attached_device_fields busy_host_results LIBUSB_ERROR_NO_DEVICE_def)
  show ?thesis
    using attached_device_attached attached_device_config sample_config_interfaces a d b
    by simp
qed

text \<open>
  C6. \<^verbatim>\<open>Attach\<close> on an attached device with the active interface returns true with no
  event and the device unchanged. On an attached device with another interface it is
  \<^verbatim>\<open>ChangeInterface\<close>, true exactly when that returns 0: the handle is not opened
  again, the device stays attached and the active interface is the requested one
  exactly on success. With the requested interface among those of the first
  configuration, its host calls are the release of the active interface, then the
  detaching of the kernel driver of the requested interface, then its claim: the old
  interface is released before the new one is claimed, and the active interface is
  replaced when the claim succeeded and kept otherwise. With the requested interface
  not among them it returns false with no host call. On a device that is not attached
  the first host call is \<^verbatim>\<open>libusb_open\<close>, a claim comes only after it, and the attached
  flag of the result is true exactly when the call returns true, that is when the open
  returned 0 with a handle, detaching the kernel driver did not fail and the claim
  succeeded.
\<close>

theorem Attach_by_state:
  "(m_device_attached this \<and> iface = m_active_interface this \<longrightarrow>
      Attach h this iface = Inr (True, this, [])) \<and>
   (m_device_attached this \<and> iface \<noteq> m_active_interface this \<longrightarrow>
      Attach h this iface =
        (case ChangeInterface h this iface of
           Inl e \<Rightarrow> Inl e
         | Inr (ret, this', evs) \<Rightarrow> Inr (ret = 0, this', evs)) \<and>
      (\<forall>ok this' evs. Attach h this iface = Inr (ok, this', evs) \<longrightarrow>
         Call_libusb_open \<notin> set (host_calls evs) \<and>
         m_device_attached this' \<and> m_handle this' = m_handle this \<and>
         m_active_interface this' = (if ok then iface else m_active_interface this))) \<and>
   (m_device_attached this \<and> iface \<noteq> m_active_interface this \<and>
    config_at this 0 = Inr c \<and> \<not> iface < bNumInterfaces c \<longrightarrow>
      Attach h this iface = Inr (False, this, [])) \<and>
   (m_device_attached this \<and> iface \<noteq> m_active_interface this \<and>
    config_at this 0 = Inr c \<and> iface < bNumInterfaces c \<longrightarrow>
      (\<exists>ok this' evs.
         Attach h this iface = Inr (ok, this', evs) \<and>
         (case m_handle this of
            None \<Rightarrow> \<not> ok \<and> this' = this \<and> host_calls evs = []
          | Some handle \<Rightarrow>
              if libusb_release_interface h handle (m_active_interface this) < 0 \<and>
                 libusb_release_interface h handle (m_active_interface this) \<noteq>
                   LIBUSB_ERROR_NO_DEVICE
              then
                \<not> ok \<and> this' = this \<and>
                host_calls evs =
                  [Call_libusb_release_interface handle (m_active_interface this)]
              else if libusb_detach_kernel_driver h handle iface < 0 \<and>
                 libusb_detach_kernel_driver h handle iface \<noteq> LIBUSB_ERROR_NOT_FOUND \<and>
                 libusb_detach_kernel_driver h handle iface \<noteq> LIBUSB_ERROR_NOT_SUPPORTED
              then
                \<not> ok \<and> this' = this \<and>
                host_calls evs =
                  [Call_libusb_release_interface handle (m_active_interface this),
                   Call_libusb_detach_kernel_driver handle iface]
              else
                ok = (0 \<le> libusb_claim_interface h handle iface) \<and>
                this' = (if ok then this\<lparr>m_active_interface := iface\<rparr> else this) \<and>
                host_calls evs =
                  [Call_libusb_release_interface handle (m_active_interface this),
                   Call_libusb_detach_kernel_driver handle iface,
                   Call_libusb_claim_interface handle iface]))) \<and>
   (\<not> m_device_attached this \<longrightarrow>
      (\<exists>ok this' evs.
         Attach h this iface = Inr (ok, this', evs) \<and>
         m_device_attached this' = ok \<and>
         m_handle this' = snd (libusb_open h (m_handle this)) \<and>
         m_active_interface this' = (if ok then iface else m_active_interface this) \<and>
         (if fst (libusb_open h (m_handle this)) \<noteq> 0
          then \<not> ok \<and> host_calls evs = [Call_libusb_open]
          else
            (case snd (libusb_open h (m_handle this)) of
               None \<Rightarrow> \<not> ok \<and> host_calls evs = [Call_libusb_open]
             | Some handle \<Rightarrow>
                 if libusb_detach_kernel_driver h handle iface < 0 \<and>
                    libusb_detach_kernel_driver h handle iface \<noteq> LIBUSB_ERROR_NOT_FOUND \<and>
                    libusb_detach_kernel_driver h handle iface \<noteq> LIBUSB_ERROR_NOT_SUPPORTED
                 then
                   \<not> ok \<and>
                   host_calls evs =
                     [Call_libusb_open, Call_libusb_detach_kernel_driver handle iface]
                 else
                   ok = (0 \<le> libusb_claim_interface h handle iface) \<and>
                   host_calls evs =
                     [Call_libusb_open, Call_libusb_detach_kernel_driver handle iface,
                      Call_libusb_claim_interface handle iface]))))"
proof (intro conjI impI)
  assume "m_device_attached this \<and> iface = m_active_interface this"
  then show "Attach h this iface = Inr (True, this, [])"
    by (simp add: Attach_def)
next
  assume a: "m_device_attached this \<and> iface \<noteq> m_active_interface this"
  then show "Attach h this iface =
        (case ChangeInterface h this iface of
           Inl e \<Rightarrow> Inl e
         | Inr (ret, this', evs) \<Rightarrow> Inr (ret = 0, this', evs))"
    by (simp add: Attach_def)
  show "\<forall>ok this' evs. Attach h this iface = Inr (ok, this', evs) \<longrightarrow>
         Call_libusb_open \<notin> set (host_calls evs) \<and>
         m_device_attached this' \<and> m_handle this' = m_handle this \<and>
         m_active_interface this' = (if ok then iface else m_active_interface this)"
    using a
    by (auto simp: Attach_def ChangeInterface_def DetachInterface_def AttachInterface_def Let_def
        host_calls_append LIBUSB_ERROR_NOT_FOUND_def
        split: if_splits option.splits sum.splits prod.splits)
next
  assume a: "m_device_attached this \<and> iface \<noteq> m_active_interface this \<and>
    config_at this 0 = Inr c \<and> \<not> iface < bNumInterfaces c"
  then have "bNumInterfaces c \<le> iface"
    by (simp add: not_less)
  with a show "Attach h this iface = Inr (False, this, [])"
    by (simp add: Attach_def ChangeInterface_def LIBUSB_ERROR_NOT_FOUND_def)
next
  assume a: "m_device_attached this \<and> iface \<noteq> m_active_interface this \<and>
    config_at this 0 = Inr c \<and> iface < bNumInterfaces c"
  then have inside: "\<not> bNumInterfaces c \<le> iface"
    by (simp add: not_le)
  show "\<exists>ok this' evs.
         Attach h this iface = Inr (ok, this', evs) \<and>
         (case m_handle this of
            None \<Rightarrow> \<not> ok \<and> this' = this \<and> host_calls evs = []
          | Some handle \<Rightarrow>
              if libusb_release_interface h handle (m_active_interface this) < 0 \<and>
                 libusb_release_interface h handle (m_active_interface this) \<noteq>
                   LIBUSB_ERROR_NO_DEVICE
              then
                \<not> ok \<and> this' = this \<and>
                host_calls evs =
                  [Call_libusb_release_interface handle (m_active_interface this)]
              else if libusb_detach_kernel_driver h handle iface < 0 \<and>
                 libusb_detach_kernel_driver h handle iface \<noteq> LIBUSB_ERROR_NOT_FOUND \<and>
                 libusb_detach_kernel_driver h handle iface \<noteq> LIBUSB_ERROR_NOT_SUPPORTED
              then
                \<not> ok \<and> this' = this \<and>
                host_calls evs =
                  [Call_libusb_release_interface handle (m_active_interface this),
                   Call_libusb_detach_kernel_driver handle iface]
              else
                ok = (0 \<le> libusb_claim_interface h handle iface) \<and>
                this' = (if ok then this\<lparr>m_active_interface := iface\<rparr> else this) \<and>
                host_calls evs =
                  [Call_libusb_release_interface handle (m_active_interface this),
                   Call_libusb_detach_kernel_driver handle iface,
                   Call_libusb_claim_interface handle iface])"
  proof (cases "m_handle this")
    case None
    then show ?thesis
      using a inside by (auto simp: Attach_def ChangeInterface_def DetachInterface_def)
  next
    case (Some handle)
    then show ?thesis
      using a inside
      by (auto simp: Attach_def ChangeInterface_def DetachInterface_def AttachInterface_def
          Let_def)
  qed
next
  assume a: "\<not> m_device_attached this"
  obtain ret handle where op: "libusb_open h (m_handle this) = (ret, handle)"
    by (cases "libusb_open h (m_handle this)")
  show "\<exists>ok this' evs.
         Attach h this iface = Inr (ok, this', evs) \<and>
         m_device_attached this' = ok \<and>
         m_handle this' = snd (libusb_open h (m_handle this)) \<and>
         m_active_interface this' = (if ok then iface else m_active_interface this) \<and>
         (if fst (libusb_open h (m_handle this)) \<noteq> 0
          then \<not> ok \<and> host_calls evs = [Call_libusb_open]
          else
            (case snd (libusb_open h (m_handle this)) of
               None \<Rightarrow> \<not> ok \<and> host_calls evs = [Call_libusb_open]
             | Some handle \<Rightarrow>
                 if libusb_detach_kernel_driver h handle iface < 0 \<and>
                    libusb_detach_kernel_driver h handle iface \<noteq> LIBUSB_ERROR_NOT_FOUND \<and>
                    libusb_detach_kernel_driver h handle iface \<noteq> LIBUSB_ERROR_NOT_SUPPORTED
                 then
                   \<not> ok \<and>
                   host_calls evs =
                     [Call_libusb_open, Call_libusb_detach_kernel_driver handle iface]
                 else
                   ok = (0 \<le> libusb_claim_interface h handle iface) \<and>
                   host_calls evs =
                     [Call_libusb_open, Call_libusb_detach_kernel_driver handle iface,
                      Call_libusb_claim_interface handle iface]))"
  proof (cases handle)
    case None
    then show ?thesis
      using a op by (simp add: Attach_def AttachInterface_def Let_def)
  next
    case (Some hdl)
    then show ?thesis
      using a op by (simp add: Attach_def AttachInterface_def Let_def)
  qed
qed

theorem Attach_by_state_witness:
  "m_device_attached attached_device \<and> 0 = m_active_interface attached_device \<and>
   Attach sample_host attached_device 0 = Inr (True, attached_device, []) \<and>
   1 \<noteq> m_active_interface attached_device \<and>
   config_at attached_device 0 = Inr sample_config \<and>
   1 < bNumInterfaces sample_config \<and>
   (\<exists>evs. Attach sample_host attached_device 1 =
            Inr (True, attached_device\<lparr>m_active_interface := 1\<rparr>, evs) \<and>
          host_calls evs =
            [Call_libusb_release_interface 7 0, Call_libusb_detach_kernel_driver 7 1,
             Call_libusb_claim_interface 7 1]) \<and>
   (\<exists>evs. Attach busy_host attached_device 1 = Inr (False, attached_device, evs) \<and>
          host_calls evs = [Call_libusb_release_interface 7 0]) \<and>
   2 \<noteq> m_active_interface attached_device \<and>
   \<not> 2 < bNumInterfaces sample_config \<and>
   Attach sample_host attached_device 2 = Inr (False, attached_device, []) \<and>
   \<not> m_device_attached sample_device \<and>
   (\<exists>this' evs. Attach sample_host sample_device 0 = Inr (True, this', evs) \<and>
          m_device_attached this' \<and> m_handle this' = Some 7 \<and> m_active_interface this' = 0 \<and>
          host_calls evs =
            [Call_libusb_open, Call_libusb_detach_kernel_driver 7 0,
             Call_libusb_claim_interface 7 0])"
proof -
  have same: "0 = m_active_interface attached_device"
    and other: "1 \<noteq> m_active_interface attached_device"
    and third: "2 \<noteq> m_active_interface attached_device"
    by (simp_all add: attached_device_fields)
  have outside: "\<not> 2 < bNumInterfaces sample_config"
    by (simp add: sample_config_def)
  have a: "Attach sample_host attached_device 0 = Inr (True, attached_device, [])"
    using Attach_by_state [where this = attached_device and iface = 0 and h = sample_host]
      attached_device_attached same
    by simp
  have pre: "m_device_attached attached_device \<and> 1 \<noteq> m_active_interface attached_device \<and>
      config_at attached_device 0 = Inr sample_config \<and> 1 < bNumInterfaces sample_config"
    using attached_device_attached other attached_device_config sample_config_interfaces
    by simp
  have b: "\<exists>evs. Attach sample_host attached_device 1 =
            Inr (True, attached_device\<lparr>m_active_interface := 1\<rparr>, evs) \<and>
          host_calls evs =
            [Call_libusb_release_interface 7 0, Call_libusb_detach_kernel_driver 7 1,
             Call_libusb_claim_interface 7 1]"
  proof -
    from Attach_by_state
        [where this = attached_device and iface = 1 and h = sample_host and c = sample_config,
         THEN conjunct2, THEN conjunct2, THEN conjunct2, THEN conjunct1, THEN mp, OF pre]
    obtain ok this' evs where
      r: "Attach sample_host attached_device 1 = Inr (ok, this', evs)" and
      cs: "ok = (0 \<le> libusb_claim_interface sample_host 7 1) \<and>
           this' = (if ok then attached_device\<lparr>m_active_interface := 1\<rparr> else attached_device) \<and>
           host_calls evs =
             [Call_libusb_release_interface 7 0, Call_libusb_detach_kernel_driver 7 1,
              Call_libusb_claim_interface 7 1]"
      by (auto simp: attached_device_fields sample_host_results)
    then show ?thesis
      by (intro exI [of _ evs]) (simp add: sample_host_results)
  qed
  have b': "\<exists>evs. Attach busy_host attached_device 1 = Inr (False, attached_device, evs) \<and>
          host_calls evs = [Call_libusb_release_interface 7 0]"
  proof -
    from Attach_by_state
        [where this = attached_device and iface = 1 and h = busy_host and c = sample_config,
         THEN conjunct2, THEN conjunct2, THEN conjunct2, THEN conjunct1, THEN mp, OF pre]
    obtain ok this' evs where
      r: "Attach busy_host attached_device 1 = Inr (ok, this', evs)" and
      cs: "\<not> ok \<and> this' = attached_device \<and>
           host_calls evs = [Call_libusb_release_interface 7 0]"
      by (auto simp: attached_device_fields busy_host_results LIBUSB_ERROR_NO_DEVICE_def)
    then show ?thesis
      by (intro exI [of _ evs]) simp
  qed
  have b'': "Attach sample_host attached_device 2 = Inr (False, attached_device, [])"
    using Attach_by_state
        [where this = attached_device and iface = 2 and h = sample_host and c = sample_config,
         THEN conjunct2, THEN conjunct2, THEN conjunct1]
      attached_device_attached third attached_device_config outside
    by simp
  have c: "\<exists>this' evs. Attach sample_host sample_device 0 = Inr (True, this', evs) \<and>
          m_device_attached this' \<and> m_handle this' = Some 7 \<and> m_active_interface this' = 0 \<and>
          host_calls evs =
            [Call_libusb_open, Call_libusb_detach_kernel_driver 7 0,
             Call_libusb_claim_interface 7 0]"
    using Attach_by_state [where this = sample_device and iface = 0 and h = sample_host]
      sample_device_fields
    by (auto simp: sample_host_results)
  show ?thesis
    using attached_device_attached same other third attached_device_config
      sample_config_interfaces outside a b b' b'' c sample_device_fields(1)
    by simp
qed

subsection \<open>The tracker\<close>

lemma find_erase:
  "find_transfer (erase k m) k' = (if k' = k then None else find_transfer m k')"
  by (induction m) (auto simp: find_transfer_def erase_def)

lemma HandleTransfer_not_found:
  "find_transfer (m_transfers this) transfer = None \<Longrightarrow>
   HandleTransfer K this transfer t fn = Inr (this, [Log LERROR ''No such transfer''])"
  by (simp add: HandleTransfer_def)

lemma failed_transfer_known:
  "s_transfer_types (transfer_type t) = Some name \<Longrightarrow>
   failed_transfer t =
     Inr ([Log LERROR ''[%04x:%04x %d] %s transfer (endpoint 0x%02x) failed: %s''],
          if status t = LIBUSB_TRANSFER_STALL then - 7004 else - 5)"
  by (simp add: failed_transfer_def)

lemma HandleTransfer_completed:
  "find_transfer (m_transfers this) transfer = Some cmd \<Longrightarrow>
   status t = LIBUSB_TRANSFER_COMPLETED \<Longrightarrow> fn cmd = Inr (calls, r) \<Longrightarrow>
   HandleTransfer K this transfer t fn =
     Inr (this\<lparr>m_transfers := erase transfer (m_transfers this)\<rparr>,
          map (CommandCall cmd) calls @ [OnTransferComplete cmd r])"
  by (simp add: HandleTransfer_def)

lemma HandleTransfer_no_device:
  "find_transfer (m_transfers this) transfer = Some cmd \<Longrightarrow>
   status t = LIBUSB_TRANSFER_NO_DEVICE \<Longrightarrow>
   HandleTransfer K this transfer t fn =
     Inr (this\<lparr>m_transfers := erase transfer (m_transfers this)\<rparr>,
          [OnTransferComplete cmd (IPC_ENOENT K)])"
  by (simp add: HandleTransfer_def)

lemma HandleTransfer_failed:
  "find_transfer (m_transfers this) transfer = Some cmd \<Longrightarrow>
   status t \<in> {LIBUSB_TRANSFER_ERROR, LIBUSB_TRANSFER_CANCELLED, LIBUSB_TRANSFER_TIMED_OUT,
               LIBUSB_TRANSFER_OVERFLOW, LIBUSB_TRANSFER_STALL} \<Longrightarrow>
   s_transfer_types (transfer_type t) = Some name \<Longrightarrow>
   HandleTransfer K this transfer t fn =
     Inr (this\<lparr>m_transfers := erase transfer (m_transfers this)\<rparr>,
          [Log LERROR ''[%04x:%04x %d] %s transfer (endpoint 0x%02x) failed: %s'',
           OnTransferComplete cmd (if status t = LIBUSB_TRANSFER_STALL then - 7004 else - 5)])"
  by (auto simp: HandleTransfer_def failed_transfer_known)

text \<open>The sample tracker and the sample transfer, whatever its status.\<close>

lemma sample_found: "find_transfer (m_transfers sample_tracker) 16 = Some (Bulk sample_bulk)"
  by (simp add: sample_tracker_def find_transfer_def)

lemma sample_known:
  "s_transfer_types (transfer_type (sample_transfer\<lparr>status := s\<rparr>)) = Some ''Bulk''"
  by (simp add: s_transfer_types_def sample_transfer_def zeroed_transfer_def
      LIBUSB_TRANSFER_TYPE_CONTROL_def LIBUSB_TRANSFER_TYPE_ISOCHRONOUS_def
      LIBUSB_TRANSFER_TYPE_BULK_def LIBUSB_TRANSFER_TYPE_INTERRUPT_def)

lemma sample_fn:
  "TransferCallback_fn (sample_transfer\<lparr>status := s\<rparr>) (Bulk sample_bulk) =
     Inr ([FillBuffer (MadeBuffer (Bulk sample_bulk) 64) 0 64], 64)"
  by (simp add: TransferCallback_fn_def sample_transfer_def zeroed_transfer_def
      LIBUSB_TRANSFER_TYPE_ISOCHRONOUS_def LIBUSB_TRANSFER_TYPE_BULK_def)

lemma sample_erased:
  "sample_tracker\<lparr>m_transfers := erase 16 (m_transfers sample_tracker)\<rparr> = \<lparr>m_transfers = []\<rparr>"
  by (simp add: sample_tracker_def erase_def)

text \<open>
  C1. A call of \<^verbatim>\<open>HandleTransfer\<close> that finds the transfer in the tracker, with a
  transfer type the log table knows and a completion function that returns, ends with
  the one terminal callback on the owning command and erases that entry and no other.
  Every later call with the same transfer handle, whatever the struct and the
  completion function, finds nothing: it logs "No such transfer", makes no callback
  and leaves the tracker as it is.
\<close>

theorem HandleTransfer_exactly_once:
  assumes found: "find_transfer (m_transfers this) transfer = Some cmd"
      and known: "s_transfer_types (transfer_type t) = Some name"
      and fn_ok: "fn cmd = Inr (calls, r)"
  shows "\<exists>pre rv this'.
           HandleTransfer K this transfer t fn = Inr (this', pre @ [OnTransferComplete cmd rv]) \<and>
           terminal_callbacks pre = [] \<and>
           m_transfers this' = erase transfer (m_transfers this) \<and>
           find_transfer (m_transfers this') transfer = None \<and>
           (\<forall>k. k \<noteq> transfer \<longrightarrow>
                find_transfer (m_transfers this') k = find_transfer (m_transfers this) k) \<and>
           (\<forall>t' fn'. HandleTransfer K this' transfer t' fn' =
                Inr (this', [Log LERROR ''No such transfer'']))"
proof -
  let ?this' = "this\<lparr>m_transfers := erase transfer (m_transfers this)\<rparr>"
  have gone: "find_transfer (m_transfers ?this') transfer = None"
    by (simp add: find_erase)
  have others: "\<forall>k. k \<noteq> transfer \<longrightarrow>
      find_transfer (m_transfers ?this') k = find_transfer (m_transfers this) k"
    by (simp add: find_erase)
  have again: "\<forall>t' fn'. HandleTransfer K ?this' transfer t' fn' =
      Inr (?this', [Log LERROR ''No such transfer''])"
    using gone by (simp add: HandleTransfer_not_found)
  obtain pre rv where run: "HandleTransfer K this transfer t fn =
      Inr (?this', pre @ [OnTransferComplete cmd rv])" and pre: "terminal_callbacks pre = []"
  proof (cases "status t")
    case LIBUSB_TRANSFER_COMPLETED
    then have "HandleTransfer K this transfer t fn =
        Inr (?this', map (CommandCall cmd) calls @ [OnTransferComplete cmd r])"
      using found fn_ok by (simp add: HandleTransfer_completed)
    then show ?thesis using that terminal_callbacks_CommandCall by blast
  next
    case LIBUSB_TRANSFER_NO_DEVICE
    then have "HandleTransfer K this transfer t fn =
        Inr (?this', [] @ [OnTransferComplete cmd (IPC_ENOENT K)])"
      using found by (simp add: HandleTransfer_no_device)
    then show ?thesis using that [of "[]"] by simp
  qed (use found known that
        [of "[Log LERROR ''[%04x:%04x %d] %s transfer (endpoint 0x%02x) failed: %s'']"] in
       \<open>simp_all add: HandleTransfer_failed\<close>)
  show ?thesis
    using run pre gone others again
    by (intro exI [of _ pre] exI [of _ rv] exI [of _ ?this']) simp
qed

theorem HandleTransfer_exactly_once_witness:
  "find_transfer (m_transfers sample_tracker) 16 = Some (Bulk sample_bulk) \<and>
   s_transfer_types (transfer_type (sample_transfer\<lparr>status := LIBUSB_TRANSFER_CANCELLED\<rparr>)) =
     Some ''Bulk'' \<and>
   TransferCallback_fn (sample_transfer\<lparr>status := LIBUSB_TRANSFER_CANCELLED\<rparr>) (Bulk sample_bulk) =
     Inr ([FillBuffer (MadeBuffer (Bulk sample_bulk) 64) 0 64], 64) \<and>
   (\<exists>pre rv this'.
      HandleTransfer sample_constants sample_tracker 16
        (sample_transfer\<lparr>status := LIBUSB_TRANSFER_CANCELLED\<rparr>)
        (TransferCallback_fn (sample_transfer\<lparr>status := LIBUSB_TRANSFER_CANCELLED\<rparr>)) =
        Inr (this', pre @ [OnTransferComplete (Bulk sample_bulk) rv]) \<and>
      terminal_callbacks pre = [] \<and>
      m_transfers this' = erase 16 (m_transfers sample_tracker) \<and>
      find_transfer (m_transfers this') 16 = None \<and>
      (\<forall>k. k \<noteq> 16 \<longrightarrow>
           find_transfer (m_transfers this') k = find_transfer (m_transfers sample_tracker) k) \<and>
      (\<forall>t' fn'. HandleTransfer sample_constants this' 16 t' fn' =
           Inr (this', [Log LERROR ''No such transfer''])))"
  using sample_found sample_known [of LIBUSB_TRANSFER_CANCELLED]
    sample_fn [of LIBUSB_TRANSFER_CANCELLED]
    HandleTransfer_exactly_once
      [where this = sample_tracker and transfer = 16 and cmd = "Bulk sample_bulk"
         and t = "sample_transfer\<lparr>status := LIBUSB_TRANSFER_CANCELLED\<rparr>"
         and name = "''Bulk''"
         and fn = "TransferCallback_fn (sample_transfer\<lparr>status := LIBUSB_TRANSFER_CANCELLED\<rparr>)"
         and calls = "[FillBuffer (MadeBuffer (Bulk sample_bulk) 64) 0 64]" and r = 64
         and K = sample_constants]
  by simp

text \<open>
  C3. For a transfer found in the tracker the host status falls in one of three
  classes. Completed: the completion function is invoked and its result is the return
  value. Error, cancelled, timed out and overflow give -5 and stall gives -7004 (with
  a transfer type the log table knows). No device gives \<^verbatim>\<open>IPC_ENOENT\<close>, without a log
  line and without invoking the completion function.
\<close>

theorem HandleTransfer_status_dispositions:
  assumes found: "find_transfer (m_transfers this) transfer = Some cmd"
  shows
    "(status t = LIBUSB_TRANSFER_COMPLETED \<or>
      status t \<in> {LIBUSB_TRANSFER_ERROR, LIBUSB_TRANSFER_CANCELLED, LIBUSB_TRANSFER_TIMED_OUT,
                  LIBUSB_TRANSFER_OVERFLOW, LIBUSB_TRANSFER_STALL} \<or>
      status t = LIBUSB_TRANSFER_NO_DEVICE) \<and>
     (status t = LIBUSB_TRANSFER_COMPLETED \<and> fn cmd = Inr (calls, r) \<longrightarrow>
        HandleTransfer K this transfer t fn =
          Inr (this\<lparr>m_transfers := erase transfer (m_transfers this)\<rparr>,
               map (CommandCall cmd) calls @ [OnTransferComplete cmd r])) \<and>
     (status t \<in> {LIBUSB_TRANSFER_ERROR, LIBUSB_TRANSFER_CANCELLED, LIBUSB_TRANSFER_TIMED_OUT,
                  LIBUSB_TRANSFER_OVERFLOW} \<and>
      s_transfer_types (transfer_type t) = Some name \<longrightarrow>
        HandleTransfer K this transfer t fn =
          Inr (this\<lparr>m_transfers := erase transfer (m_transfers this)\<rparr>,
               [Log LERROR ''[%04x:%04x %d] %s transfer (endpoint 0x%02x) failed: %s'',
                OnTransferComplete cmd (- 5)])) \<and>
     (status t = LIBUSB_TRANSFER_STALL \<and> s_transfer_types (transfer_type t) = Some name \<longrightarrow>
        HandleTransfer K this transfer t fn =
          Inr (this\<lparr>m_transfers := erase transfer (m_transfers this)\<rparr>,
               [Log LERROR ''[%04x:%04x %d] %s transfer (endpoint 0x%02x) failed: %s'',
                OnTransferComplete cmd (- 7004)])) \<and>
     (status t = LIBUSB_TRANSFER_NO_DEVICE \<longrightarrow>
        HandleTransfer K this transfer t fn =
          Inr (this\<lparr>m_transfers := erase transfer (m_transfers this)\<rparr>,
               [OnTransferComplete cmd (IPC_ENOENT K)]))"
proof (intro conjI impI)
  show "status t = LIBUSB_TRANSFER_COMPLETED \<or>
      status t \<in> {LIBUSB_TRANSFER_ERROR, LIBUSB_TRANSFER_CANCELLED, LIBUSB_TRANSFER_TIMED_OUT,
                  LIBUSB_TRANSFER_OVERFLOW, LIBUSB_TRANSFER_STALL} \<or>
      status t = LIBUSB_TRANSFER_NO_DEVICE"
    by (cases "status t") simp_all
next
  assume "status t = LIBUSB_TRANSFER_COMPLETED \<and> fn cmd = Inr (calls, r)"
  then show "HandleTransfer K this transfer t fn =
          Inr (this\<lparr>m_transfers := erase transfer (m_transfers this)\<rparr>,
               map (CommandCall cmd) calls @ [OnTransferComplete cmd r])"
    using found by (simp add: HandleTransfer_completed)
next
  assume a: "status t \<in> {LIBUSB_TRANSFER_ERROR, LIBUSB_TRANSFER_CANCELLED, LIBUSB_TRANSFER_TIMED_OUT,
                  LIBUSB_TRANSFER_OVERFLOW} \<and>
      s_transfer_types (transfer_type t) = Some name"
  then have "status t \<noteq> LIBUSB_TRANSFER_STALL" by auto
  moreover have "status t \<in> {LIBUSB_TRANSFER_ERROR, LIBUSB_TRANSFER_CANCELLED,
      LIBUSB_TRANSFER_TIMED_OUT, LIBUSB_TRANSFER_OVERFLOW, LIBUSB_TRANSFER_STALL}"
    using a by auto
  ultimately show "HandleTransfer K this transfer t fn =
          Inr (this\<lparr>m_transfers := erase transfer (m_transfers this)\<rparr>,
               [Log LERROR ''[%04x:%04x %d] %s transfer (endpoint 0x%02x) failed: %s'',
                OnTransferComplete cmd (- 5)])"
    using found a HandleTransfer_failed [of this transfer cmd t name K fn] by simp
next
  assume a: "status t = LIBUSB_TRANSFER_STALL \<and> s_transfer_types (transfer_type t) = Some name"
  then show "HandleTransfer K this transfer t fn =
          Inr (this\<lparr>m_transfers := erase transfer (m_transfers this)\<rparr>,
               [Log LERROR ''[%04x:%04x %d] %s transfer (endpoint 0x%02x) failed: %s'',
                OnTransferComplete cmd (- 7004)])"
    using found HandleTransfer_failed [of this transfer cmd t name K fn] by simp
next
  assume "status t = LIBUSB_TRANSFER_NO_DEVICE"
  then show "HandleTransfer K this transfer t fn =
          Inr (this\<lparr>m_transfers := erase transfer (m_transfers this)\<rparr>,
               [OnTransferComplete cmd (IPC_ENOENT K)])"
    using found by (simp add: HandleTransfer_no_device)
qed

theorem HandleTransfer_status_dispositions_witness:
  "find_transfer (m_transfers sample_tracker) 16 = Some (Bulk sample_bulk) \<and>
   HandleTransfer sample_constants sample_tracker 16 sample_transfer
       (TransferCallback_fn sample_transfer) =
     Inr (\<lparr>m_transfers = []\<rparr>,
          [CommandCall (Bulk sample_bulk) (FillBuffer (MadeBuffer (Bulk sample_bulk) 64) 0 64),
           OnTransferComplete (Bulk sample_bulk) 64]) \<and>
   HandleTransfer sample_constants sample_tracker 16
       (sample_transfer\<lparr>status := LIBUSB_TRANSFER_TIMED_OUT\<rparr>)
       (TransferCallback_fn sample_transfer) =
     Inr (\<lparr>m_transfers = []\<rparr>,
          [Log LERROR ''[%04x:%04x %d] %s transfer (endpoint 0x%02x) failed: %s'',
           OnTransferComplete (Bulk sample_bulk) (- 5)]) \<and>
   HandleTransfer sample_constants sample_tracker 16
       (sample_transfer\<lparr>status := LIBUSB_TRANSFER_STALL\<rparr>)
       (TransferCallback_fn sample_transfer) =
     Inr (\<lparr>m_transfers = []\<rparr>,
          [Log LERROR ''[%04x:%04x %d] %s transfer (endpoint 0x%02x) failed: %s'',
           OnTransferComplete (Bulk sample_bulk) (- 7004)]) \<and>
   HandleTransfer sample_constants sample_tracker 16
       (sample_transfer\<lparr>status := LIBUSB_TRANSFER_NO_DEVICE\<rparr>)
       (TransferCallback_fn sample_transfer) =
     Inr (\<lparr>m_transfers = []\<rparr>, [OnTransferComplete (Bulk sample_bulk) (- 6)])"
proof -
  note d = HandleTransfer_status_dispositions
    [OF sample_found, where K = sample_constants and fn = "TransferCallback_fn sample_transfer"
      and calls = "[FillBuffer (MadeBuffer (Bulk sample_bulk) 64) 0 64]" and r = 64
      and name = "''Bulk''"]
  have completed: "status sample_transfer = LIBUSB_TRANSFER_COMPLETED"
    by (simp add: sample_transfer_def zeroed_transfer_def)
  have fn: "TransferCallback_fn sample_transfer (Bulk sample_bulk) =
      Inr ([FillBuffer (MadeBuffer (Bulk sample_bulk) 64) 0 64], 64)"
    using sample_fn [of LIBUSB_TRANSFER_COMPLETED] completed by (simp add: sample_transfer_def zeroed_transfer_def)
  have "HandleTransfer sample_constants sample_tracker 16 sample_transfer
       (TransferCallback_fn sample_transfer) =
     Inr (\<lparr>m_transfers = []\<rparr>,
          [CommandCall (Bulk sample_bulk) (FillBuffer (MadeBuffer (Bulk sample_bulk) 64) 0 64),
           OnTransferComplete (Bulk sample_bulk) 64])"
    using d [of sample_transfer] completed fn by (simp add: sample_erased)
  moreover have "HandleTransfer sample_constants sample_tracker 16
       (sample_transfer\<lparr>status := LIBUSB_TRANSFER_TIMED_OUT\<rparr>)
       (TransferCallback_fn sample_transfer) =
     Inr (\<lparr>m_transfers = []\<rparr>,
          [Log LERROR ''[%04x:%04x %d] %s transfer (endpoint 0x%02x) failed: %s'',
           OnTransferComplete (Bulk sample_bulk) (- 5)])"
    using d [of "sample_transfer\<lparr>status := LIBUSB_TRANSFER_TIMED_OUT\<rparr>"]
      sample_known [of LIBUSB_TRANSFER_TIMED_OUT] by (simp add: sample_erased)
  moreover have "HandleTransfer sample_constants sample_tracker 16
       (sample_transfer\<lparr>status := LIBUSB_TRANSFER_STALL\<rparr>)
       (TransferCallback_fn sample_transfer) =
     Inr (\<lparr>m_transfers = []\<rparr>,
          [Log LERROR ''[%04x:%04x %d] %s transfer (endpoint 0x%02x) failed: %s'',
           OnTransferComplete (Bulk sample_bulk) (- 7004)])"
    using d [of "sample_transfer\<lparr>status := LIBUSB_TRANSFER_STALL\<rparr>"]
      sample_known [of LIBUSB_TRANSFER_STALL] by (simp add: sample_erased)
  moreover have "HandleTransfer sample_constants sample_tracker 16
       (sample_transfer\<lparr>status := LIBUSB_TRANSFER_NO_DEVICE\<rparr>)
       (TransferCallback_fn sample_transfer) =
     Inr (\<lparr>m_transfers = []\<rparr>, [OnTransferComplete (Bulk sample_bulk) (- 6)])"
    using d [of "sample_transfer\<lparr>status := LIBUSB_TRANSFER_NO_DEVICE\<rparr>"]
    by (simp add: sample_erased sample_constants_def)
  ultimately show ?thesis using sample_found by simp
qed





text \<open>Submitting the sample isochronous command leaves it tracked under its endpoint.\<close>

lemma iso_device_submitted:
  "SubmitTransfer_Iso sample_host attached_device sample_iso =
     Inr (0, iso_device,
          [Host (Call_libusb_alloc_transfer 2),
           Host (Call_libusb_submit_transfer 16
             (sample_iso_transfer\<lparr>iso_packet_desc :=
                [\<lparr>packet_length = 8, packet_actual_length = 0\<rparr>,
                 \<lparr>packet_length = 16, packet_actual_length = 0\<rparr>]\<rparr>))])"
  by (simp add: SubmitTransfer_Iso_def attached_device_def sample_host_def sample_iso_def
      array_at_def track_and_submit_def iso_device_def set_tracker_def tracker_at_def
      AddTransfer_def emplace_def find_transfer_def sample_device_def LibusbDevice_ctor_def
      fresh_members_def sample_iso_transfer_def zeroed_transfer_def upt_rec)






subsection \<open>Cancelling\<close>

lemma host_calls_cancel:
  "host_calls (map (\<lambda>p. Host (Call_libusb_cancel_transfer (fst p))) m) =
     map (\<lambda>p. Call_libusb_cancel_transfer (fst p)) m"
  by (induction m) simp_all

lemma host_calls_CancelTransfers:
  "host_calls (CancelTransfers tracker) =
     map (\<lambda>p. Call_libusb_cancel_transfer (fst p)) (m_transfers tracker)"
  by (simp add: CancelTransfers_def host_calls_cancel)

text \<open>
  Submitting the sample bulk command and completing its transfer: the entry is gone,
  the tracker of the endpoint stays.
\<close>

lemma bulk_device_submitted:
  "SubmitTransfer_Bulk sample_host attached_device sample_bulk =
     Inr (0, bulk_device,
          [Host (Call_libusb_alloc_transfer 0),
           Host (Call_libusb_submit_transfer 16 (sample_transfer\<lparr>actual_length := 0\<rparr>))])"
  by (simp add: SubmitTransfer_Bulk_def attached_device_def sample_host_def sample_bulk_def
      track_and_submit_def bulk_device_def set_tracker_def tracker_at_def
      AddTransfer_def emplace_def find_transfer_def sample_device_def LibusbDevice_ctor_def
      fresh_members_def sample_transfer_def zeroed_transfer_def sample_tracker_def)

lemma drained_device_completed:
  "TransferCallback sample_constants bulk_device 16 sample_transfer =
     Inr (drained_device,
          [CommandCall (Bulk sample_bulk) (FillBuffer (MadeBuffer (Bulk sample_bulk) 64) 0 64),
           OnTransferComplete (Bulk sample_bulk) 64])"
proof -
  have "tracker_at bulk_device (endpoint sample_transfer) = sample_tracker"
    by (simp add: bulk_device_def set_tracker_def tracker_at_def sample_transfer_def)
  moreover have "status sample_transfer = LIBUSB_TRANSFER_COMPLETED"
    by (simp add: sample_transfer_def zeroed_transfer_def)
  moreover have "set_tracker bulk_device (endpoint sample_transfer) \<lparr>m_transfers = []\<rparr> =
      drained_device"
    by (simp add: bulk_device_def drained_device_def set_tracker_def sample_transfer_def)
  moreover have "TransferCallback_fn sample_transfer (Bulk sample_bulk) =
      Inr ([FillBuffer (MadeBuffer (Bulk sample_bulk) 64) 0 64], 64)"
    using sample_fn [of LIBUSB_TRANSFER_COMPLETED]
    by (simp add: sample_transfer_def zeroed_transfer_def)
  ultimately show ?thesis
    using sample_found by (simp add: TransferCallback_def HandleTransfer_def sample_erased)
qed

text \<open>
  C5, as the code has it. \<^verbatim>\<open>CancelTransfer\<close> looks the endpoint up in
  \<^verbatim>\<open>m_transfer_endpoints\<close>. For an endpoint that has no tracker it returns
  \<^verbatim>\<open>IPC_ENOENT\<close>, makes no host call and changes nothing. For an endpoint that has a
  tracker it returns \<^verbatim>\<open>IPC_SUCCESS\<close> after one \<^verbatim>\<open>libusb_cancel_transfer\<close> for every
  tracked transfer, in key order and none when the tracker is empty, and it removes
  no entry: the device is returned as it was.
\<close>

theorem CancelTransfer_by_tracker:
  "(m_transfer_endpoints this ep = None \<longrightarrow>
      CancelTransfer K this ep =
        (IPC_ENOENT K, this,
         [Log LINFO ''[%04x:%04x %d] Cancelling transfers (endpoint 0x%x)''])) \<and>
   (m_transfer_endpoints this ep = Some tracker \<longrightarrow>
      (\<exists>evs. CancelTransfer K this ep = (IPC_SUCCESS, this, evs) \<and>
             host_calls evs =
               map (\<lambda>p. Call_libusb_cancel_transfer (fst p)) (m_transfers tracker)))"
  by (simp add: CancelTransfer_def host_calls_CancelTransfers)

theorem CancelTransfer_by_tracker_witness:
  "m_transfer_endpoints attached_device 0x81 = None \<and>
   CancelTransfer sample_constants attached_device 0x81 =
     (- 6, attached_device, [Log LINFO ''[%04x:%04x %d] Cancelling transfers (endpoint 0x%x)'']) \<and>
   m_transfer_endpoints bulk_device 0x81 = Some sample_tracker \<and>
   (\<exists>evs. CancelTransfer sample_constants bulk_device 0x81 = (0, bulk_device, evs) \<and>
          host_calls evs = [Call_libusb_cancel_transfer 16])"
proof -
  have none: "m_transfer_endpoints attached_device 0x81 = None"
    by (simp add: attached_device_def sample_device_def LibusbDevice_ctor_def fresh_members_def)
  have some: "m_transfer_endpoints bulk_device 0x81 = Some sample_tracker"
    by (simp add: bulk_device_def set_tracker_def)
  have "CancelTransfer sample_constants attached_device 0x81 =
     (- 6, attached_device, [Log LINFO ''[%04x:%04x %d] Cancelling transfers (endpoint 0x%x)''])"
    using CancelTransfer_by_tracker [where this = attached_device and ep = "0x81" and K = sample_constants] none
    by (simp add: sample_constants_def)
  moreover have "\<exists>evs. CancelTransfer sample_constants bulk_device 0x81 = (0, bulk_device, evs) \<and>
          host_calls evs = [Call_libusb_cancel_transfer 16]"
    using CancelTransfer_by_tracker [where this = bulk_device and ep = "0x81" and tracker = sample_tracker and K = sample_constants] some
    by (simp add: IPC_SUCCESS_def sample_tracker_def)
  ultimately show ?thesis using none some by simp
qed

text \<open>
  An endpoint with no pending transfer does not always give \<^verbatim>\<open>IPC_ENOENT\<close>: once a
  bulk transfer on endpoint 0x81 has been submitted and has completed, the endpoint's
  tracker is empty and \<^verbatim>\<open>CancelTransfer(0x81)\<close> returns \<^verbatim>\<open>IPC_SUCCESS\<close>.
\<close>

theorem CancelTransfer_no_pending_counterexample:
  "SubmitTransfer_Bulk sample_host attached_device sample_bulk =
     Inr (0, bulk_device,
          [Host (Call_libusb_alloc_transfer 0),
           Host (Call_libusb_submit_transfer 16 (sample_transfer\<lparr>actual_length := 0\<rparr>))]) \<and>
   TransferCallback sample_constants bulk_device 16 sample_transfer =
     Inr (drained_device,
          [CommandCall (Bulk sample_bulk) (FillBuffer (MadeBuffer (Bulk sample_bulk) 64) 0 64),
           OnTransferComplete (Bulk sample_bulk) 64]) \<and>
   m_transfers (tracker_at drained_device 0x81) = [] \<and>
   CancelTransfer sample_constants drained_device 0x81 =
     (IPC_SUCCESS, drained_device,
      [Log LINFO ''[%04x:%04x %d] Cancelling transfers (endpoint 0x%x)'']) \<and>
   IPC_SUCCESS \<noteq> IPC_ENOENT sample_constants"
proof -
  have "m_transfers (tracker_at drained_device 0x81) = []"
    by (simp add: drained_device_def set_tracker_def tracker_at_def)
  moreover have "CancelTransfer sample_constants drained_device 0x81 =
     (IPC_SUCCESS, drained_device,
      [Log LINFO ''[%04x:%04x %d] Cancelling transfers (endpoint 0x%x)''])"
    by (simp add: CancelTransfer_def drained_device_def set_tracker_def CancelTransfers_def)
  moreover have "IPC_SUCCESS \<noteq> IPC_ENOENT sample_constants"
    by (simp add: IPC_SUCCESS_def sample_constants_def)
  ultimately show ?thesis
    using bulk_device_submitted drained_device_completed by simp
qed

subsection \<open>Submitting control messages\<close>

text \<open>Changing the interface builds no transfer, enqueues no reply and leaves the
  trackers, the attached flag and the handle alone.\<close>

lemma DetachInterface_no_transfer_call:
  "filter is_transfer_call (host_calls (snd (DetachInterface h this))) = []"
  by (simp add: DetachInterface_def Let_def split: option.splits)

lemma DetachInterface_no_reply: "ipc_replies (snd (DetachInterface h this)) = []"
  by (simp add: DetachInterface_def Let_def split: option.splits)

lemma AttachInterface_no_transfer_call:
  "filter is_transfer_call (host_calls (snd (snd (AttachInterface h this iface)))) = []"
  by (simp add: AttachInterface_def Let_def split: option.splits)

lemma AttachInterface_no_reply: "ipc_replies (snd (snd (AttachInterface h this iface))) = []"
  by (simp add: AttachInterface_def Let_def split: option.splits)

lemma AttachInterface_frame:
  "m_transfer_endpoints (fst (snd (AttachInterface h this iface))) = m_transfer_endpoints this \<and>
   m_device_attached (fst (snd (AttachInterface h this iface))) = m_device_attached this \<and>
   m_handle (fst (snd (AttachInterface h this iface))) = m_handle this"
  by (simp add: AttachInterface_def Let_def split: option.splits)

lemma ChangeInterface_frame:
  assumes "ChangeInterface h this iface = Inr (ret, this', evs)"
  shows "m_transfer_endpoints this' = m_transfer_endpoints this \<and>
         m_device_attached this' = m_device_attached this \<and>
         m_handle this' = m_handle this \<and>
         filter is_transfer_call (host_calls evs) = [] \<and> ipc_replies evs = []"
proof (cases "m_device_attached this")
  case False
  with assms show ?thesis by (simp add: ChangeInterface_def)
next
  case True
  show ?thesis
  proof (cases "config_at this 0")
    case (Inl e)
    with True assms show ?thesis by (simp add: ChangeInterface_def)
  next
    case (Inr c)
    obtain r evs1 where d: "DetachInterface h this = (r, evs1)" by (cases "DetachInterface h this")
    obtain r2 this2 evs2 where a: "AttachInterface h this iface = (r2, this2, evs2)"
      by (cases "AttachInterface h this iface") auto
    have d1: "filter is_transfer_call (host_calls evs1) = []" "ipc_replies evs1 = []"
      using DetachInterface_no_transfer_call [of h this] DetachInterface_no_reply [of h this] d
      by simp_all
    have a1: "filter is_transfer_call (host_calls evs2) = []" "ipc_replies evs2 = []"
      "m_transfer_endpoints this2 = m_transfer_endpoints this"
      "m_device_attached this2 = m_device_attached this" "m_handle this2 = m_handle this"
      using AttachInterface_no_transfer_call [of h this iface]
        AttachInterface_no_reply [of h this iface] AttachInterface_frame [of h this iface] a
      by simp_all
    show ?thesis
      using True Inr assms d a d1 a1
      by (auto simp: ChangeInterface_def host_calls_append ipc_replies_append split: if_splits)
  qed
qed




subsection \<open>The tracker of control transfers\<close>

lemma set_tracker_other:
  "n \<noteq> m \<Longrightarrow> m_transfer_endpoints (set_tracker this m tracker) n = m_transfer_endpoints this n"
  by (simp add: set_tracker_def)

lemma tracker_at_set_tracker: "tracker_at (set_tracker this n tracker) n = tracker"
  by (simp add: set_tracker_def tracker_at_def)

lemma for_each_array_at:
  "\<forall>i \<in> set idx. i < length xs \<Longrightarrow> for_each (array_at xs) idx = Inr (map ((!) xs) idx)"
  by (induction idx) (simp_all add: array_at_def)

lemma CtrlTransferCallback_fn_result:
  "CtrlTransferCallback_fn t cmd =
     Inr ([FillBuffer (buffer t) 8 (actual_length t)], transfer_length t)"
  by (simp add: CtrlTransferCallback_fn_def LIBUSB_CONTROL_SETUP_SIZE_def)

lemma TransferCallback_fn_other:
  "transfer_type t \<noteq> LIBUSB_TRANSFER_TYPE_ISOCHRONOUS \<Longrightarrow>
   TransferCallback_fn t cmd = Inr ([FillBuffer (buffer t) 0 (actual_length t)], actual_length t)"
  by (simp add: TransferCallback_fn_def)

text \<open>Looking a key up after \<^verbatim>\<open>emplace\<close>: a key that was there keeps its command.\<close>

lemma find_insort:
  "find_transfer m k = None \<Longrightarrow>
   find_transfer (insort_key fst (k, v) m) k' = (if k' = k then Some v else find_transfer m k')"
  by (induction m) (auto simp: find_transfer_def split: if_splits)

lemma find_emplace:
  "find_transfer (emplace k v m) k' =
     (if k' = k then (case find_transfer m k of None \<Rightarrow> Some v | Some earlier \<Rightarrow> Some earlier)
      else find_transfer m k')"
  by (cases "find_transfer m k") (simp_all add: emplace_def find_insort)

lemma tracked_after_AddTransfer:
  "find_transfer
     (m_transfers (tracker_at (set_tracker this n (AddTransfer (tracker_at this n) cmd p)) n)) k =
     (if k = p
      then (case find_transfer (m_transfers (tracker_at this n)) p of
              None \<Rightarrow> Some cmd
            | Some earlier \<Rightarrow> Some earlier)
      else find_transfer (m_transfers (tracker_at this n)) k)"
  by (simp add: tracker_at_set_tracker AddTransfer_def find_emplace)

lemma HandleTransfer_unknown_type:
  "find_transfer (m_transfers this) transfer = Some cmd \<Longrightarrow>
   status t \<in> {LIBUSB_TRANSFER_ERROR, LIBUSB_TRANSFER_CANCELLED, LIBUSB_TRANSFER_TIMED_OUT,
               LIBUSB_TRANSFER_OVERFLOW, LIBUSB_TRANSFER_STALL} \<Longrightarrow>
   s_transfer_types (transfer_type t) = None \<Longrightarrow>
   HandleTransfer K this transfer t fn = Inl OutOfRange"
  by (auto simp: HandleTransfer_def failed_transfer_def)

text \<open>
  C10. On an attached device every control message that is not intercepted is
  tracked under endpoint 0, with a transfer whose endpoint is 0 and whose callback is
  \<^verbatim>\<open>CtrlTransferCallback\<close>, whatever its request type, request and index: a lookup of
  the transfer in tracker 0 finds the command afterwards (or the command an earlier
  entry under the same pointer holds, which \<^verbatim>\<open>emplace\<close> keeps), and no other tracker
  changes. \<^verbatim>\<open>CtrlTransferCallback\<close> looks the transfer up in the tracker of endpoint 0,
  whatever the transfer struct says, and dispatches from there for every status:
  absent it logs; completed it fills the buffer and returns the transfer length; with
  no device it returns \<^verbatim>\<open>IPC_ENOENT\<close>; failed it returns -5, or -7004 for a stall (and
  throws where the log table does not know the transfer type); each time the terminal
  callback goes to the tracked command and the entry is erased from tracker 0. Bulk,
  interrupt and isochronous commands are tracked under their own endpoint number and
  \<^verbatim>\<open>TransferCallback\<close> dispatches them from the tracker of the transfer's endpoint, so
  with a nonzero number they are in another tracker than the control transfers:
  setting the tracker of a nonzero endpoint leaves tracker 0 alone, and the reverse.
\<close>

theorem control_transfers_on_endpoint_zero:
  assumes attached: "m_device_attached this"
      and alloc: "libusb_alloc_transfer h 0 = Some transfer"
  shows
    "(request_key ctrl_cmd \<noteq> USBHDR_SET_INTERFACE K \<and>
      request_key ctrl_cmd \<noteq> USBHDR_SET_CONFIGURATION K \<longrightarrow>
      (\<exists>t this'.
        SubmitTransfer_Ctrl K h this ctrl_cmd =
          Inr (libusb_submit_transfer h transfer t, this',
               [Host (Call_libusb_alloc_transfer 0),
                Host (Call_libusb_submit_transfer transfer t)]) \<and>
        endpoint t = 0 \<and> transfer_type t = LIBUSB_TRANSFER_TYPE_CONTROL \<and>
        callback t = Cb_CtrlTransferCallback \<and>
        this' = set_tracker this 0 (AddTransfer (tracker_at this 0) (Ctrl ctrl_cmd) transfer) \<and>
        find_transfer (m_transfers (tracker_at this' 0)) transfer =
          (case find_transfer (m_transfers (tracker_at this 0)) transfer of
             None \<Rightarrow> Some (Ctrl ctrl_cmd)
           | Some earlier \<Rightarrow> Some earlier) \<and>
        (\<forall>k. k \<noteq> transfer \<longrightarrow>
           find_transfer (m_transfers (tracker_at this' 0)) k =
             find_transfer (m_transfers (tracker_at this 0)) k) \<and>
        (\<forall>n. n \<noteq> 0 \<longrightarrow> m_transfer_endpoints this' n = m_transfer_endpoints this n))) \<and>
     (\<exists>t this'.
        SubmitTransfer_Bulk h this bulk_cmd =
          Inr (libusb_submit_transfer h transfer t, this',
               [Host (Call_libusb_alloc_transfer 0),
                Host (Call_libusb_submit_transfer transfer t)]) \<and>
        endpoint t = bulk_endpoint bulk_cmd \<and> transfer_type t = LIBUSB_TRANSFER_TYPE_BULK \<and>
        callback t = Cb_TransferCallback \<and>
        this' = set_tracker this (bulk_endpoint bulk_cmd) (AddTransfer (tracker_at this (bulk_endpoint bulk_cmd)) (Bulk bulk_cmd) transfer) \<and>
        find_transfer (m_transfers (tracker_at this' (bulk_endpoint bulk_cmd))) transfer =
          (case find_transfer (m_transfers (tracker_at this (bulk_endpoint bulk_cmd))) transfer of
             None \<Rightarrow> Some (Bulk bulk_cmd)
           | Some earlier \<Rightarrow> Some earlier) \<and>
        (\<forall>k. k \<noteq> transfer \<longrightarrow>
           find_transfer (m_transfers (tracker_at this' (bulk_endpoint bulk_cmd))) k =
             find_transfer (m_transfers (tracker_at this (bulk_endpoint bulk_cmd))) k) \<and>
        (\<forall>n. n \<noteq> bulk_endpoint bulk_cmd \<longrightarrow> m_transfer_endpoints this' n = m_transfer_endpoints this n)) \<and>
     (\<exists>t this'.
        SubmitTransfer_Intr h this intr_cmd =
          Inr (libusb_submit_transfer h transfer t, this',
               [Host (Call_libusb_alloc_transfer 0),
                Host (Call_libusb_submit_transfer transfer t)]) \<and>
        endpoint t = intr_endpoint intr_cmd \<and> transfer_type t = LIBUSB_TRANSFER_TYPE_INTERRUPT \<and>
        callback t = Cb_TransferCallback \<and>
        this' = set_tracker this (intr_endpoint intr_cmd) (AddTransfer (tracker_at this (intr_endpoint intr_cmd)) (Intr intr_cmd) transfer) \<and>
        find_transfer (m_transfers (tracker_at this' (intr_endpoint intr_cmd))) transfer =
          (case find_transfer (m_transfers (tracker_at this (intr_endpoint intr_cmd))) transfer of
             None \<Rightarrow> Some (Intr intr_cmd)
           | Some earlier \<Rightarrow> Some earlier) \<and>
        (\<forall>k. k \<noteq> transfer \<longrightarrow>
           find_transfer (m_transfers (tracker_at this' (intr_endpoint intr_cmd))) k =
             find_transfer (m_transfers (tracker_at this (intr_endpoint intr_cmd))) k) \<and>
        (\<forall>n. n \<noteq> intr_endpoint intr_cmd \<longrightarrow> m_transfer_endpoints this' n = m_transfer_endpoints this n)) \<and>
     (libusb_alloc_transfer h (unat (iso_num_packets iso_cmd)) = Some transfer' \<and>
      unat (iso_num_packets iso_cmd) \<le> length (iso_packet_sizes iso_cmd) \<longrightarrow>
      (\<exists>t this'.
        SubmitTransfer_Iso h this iso_cmd =
          Inr (libusb_submit_transfer h transfer' t, this',
               [Host (Call_libusb_alloc_transfer (unat (iso_num_packets iso_cmd))),
                Host (Call_libusb_submit_transfer transfer' t)]) \<and>
        endpoint t = iso_endpoint iso_cmd \<and> transfer_type t = LIBUSB_TRANSFER_TYPE_ISOCHRONOUS \<and>
        callback t = Cb_TransferCallback \<and>
        this' = set_tracker this (iso_endpoint iso_cmd) (AddTransfer (tracker_at this (iso_endpoint iso_cmd)) (Iso iso_cmd) transfer') \<and>
        find_transfer (m_transfers (tracker_at this' (iso_endpoint iso_cmd))) transfer' =
          (case find_transfer (m_transfers (tracker_at this (iso_endpoint iso_cmd))) transfer' of
             None \<Rightarrow> Some (Iso iso_cmd)
           | Some earlier \<Rightarrow> Some earlier) \<and>
        (\<forall>k. k \<noteq> transfer' \<longrightarrow>
           find_transfer (m_transfers (tracker_at this' (iso_endpoint iso_cmd))) k =
             find_transfer (m_transfers (tracker_at this (iso_endpoint iso_cmd))) k) \<and>
        (\<forall>n. n \<noteq> iso_endpoint iso_cmd \<longrightarrow> m_transfer_endpoints this' n = m_transfer_endpoints this n))) \<and>
     (\<forall>n tracker. n \<noteq> 0 \<longrightarrow>
        tracker_at (set_tracker this n tracker) 0 = tracker_at this 0 \<and>
        tracker_at (set_tracker this 0 tracker) n = tracker_at this n) \<and>
     (\<forall>device p t'. find_transfer (m_transfers (tracker_at device 0)) p = None \<longrightarrow>
        CtrlTransferCallback K device p t' =
          Inr (set_tracker device 0 (tracker_at device 0), [Log LERROR ''No such transfer''])) \<and>
     (\<forall>device p t' cmd.
        find_transfer (m_transfers (tracker_at device 0)) p = Some cmd \<and>
        status t' = LIBUSB_TRANSFER_COMPLETED \<longrightarrow>
        CtrlTransferCallback K device p t' =
          Inr (set_tracker device 0
                 ((tracker_at device 0)
                    \<lparr>m_transfers := erase p (m_transfers (tracker_at device 0))\<rparr>),
               [CommandCall cmd (FillBuffer (buffer t') 8 (actual_length t')),
                OnTransferComplete cmd (transfer_length t')])) \<and>
     (\<forall>device p t' cmd.
        find_transfer (m_transfers (tracker_at device 0)) p = Some cmd \<and>
        status t' = LIBUSB_TRANSFER_NO_DEVICE \<longrightarrow>
        CtrlTransferCallback K device p t' =
          Inr (set_tracker device 0
                 ((tracker_at device 0)
                    \<lparr>m_transfers := erase p (m_transfers (tracker_at device 0))\<rparr>),
               [OnTransferComplete cmd (IPC_ENOENT K)])) \<and>
     (\<forall>device p t' cmd name.
        find_transfer (m_transfers (tracker_at device 0)) p = Some cmd \<and>
        status t' \<in>
            {LIBUSB_TRANSFER_ERROR, LIBUSB_TRANSFER_CANCELLED, LIBUSB_TRANSFER_TIMED_OUT,
             LIBUSB_TRANSFER_OVERFLOW, LIBUSB_TRANSFER_STALL} \<and>
        s_transfer_types (transfer_type t') = Some name \<longrightarrow>
        CtrlTransferCallback K device p t' =
          Inr (set_tracker device 0
                 ((tracker_at device 0)
                    \<lparr>m_transfers := erase p (m_transfers (tracker_at device 0))\<rparr>),
               [Log LERROR ''[%04x:%04x %d] %s transfer (endpoint 0x%02x) failed: %s'',
                OnTransferComplete cmd
                  (if status t' = LIBUSB_TRANSFER_STALL then - 7004 else - 5)])) \<and>
     (\<forall>device p t' cmd.
        find_transfer (m_transfers (tracker_at device 0)) p = Some cmd \<and>
        status t' \<in>
            {LIBUSB_TRANSFER_ERROR, LIBUSB_TRANSFER_CANCELLED, LIBUSB_TRANSFER_TIMED_OUT,
             LIBUSB_TRANSFER_OVERFLOW, LIBUSB_TRANSFER_STALL} \<and>
        s_transfer_types (transfer_type t') = None \<longrightarrow>
        CtrlTransferCallback K device p t' = Inl OutOfRange) \<and>
     (\<forall>device p t'. find_transfer (m_transfers (tracker_at device (endpoint t'))) p = None \<longrightarrow>
        TransferCallback K device p t' =
          Inr (set_tracker device (endpoint t') (tracker_at device (endpoint t')), [Log LERROR ''No such transfer''])) \<and>
     (\<forall>device p t' cmd.
        find_transfer (m_transfers (tracker_at device (endpoint t'))) p = Some cmd \<and>
        status t' = LIBUSB_TRANSFER_COMPLETED \<and>
        transfer_type t' \<noteq> LIBUSB_TRANSFER_TYPE_ISOCHRONOUS \<longrightarrow>
        TransferCallback K device p t' =
          Inr (set_tracker device (endpoint t')
                 ((tracker_at device (endpoint t'))
                    \<lparr>m_transfers := erase p (m_transfers (tracker_at device (endpoint t')))\<rparr>),
               [CommandCall cmd (FillBuffer (buffer t') 0 (actual_length t')),
                OnTransferComplete cmd (actual_length t')])) \<and>
     (\<forall>device p t' cmd.
        find_transfer (m_transfers (tracker_at device (endpoint t'))) p = Some cmd \<and>
        status t' = LIBUSB_TRANSFER_NO_DEVICE \<longrightarrow>
        TransferCallback K device p t' =
          Inr (set_tracker device (endpoint t')
                 ((tracker_at device (endpoint t'))
                    \<lparr>m_transfers := erase p (m_transfers (tracker_at device (endpoint t')))\<rparr>),
               [OnTransferComplete cmd (IPC_ENOENT K)])) \<and>
     (\<forall>device p t' cmd name.
        find_transfer (m_transfers (tracker_at device (endpoint t'))) p = Some cmd \<and>
        status t' \<in>
            {LIBUSB_TRANSFER_ERROR, LIBUSB_TRANSFER_CANCELLED, LIBUSB_TRANSFER_TIMED_OUT,
             LIBUSB_TRANSFER_OVERFLOW, LIBUSB_TRANSFER_STALL} \<and>
        s_transfer_types (transfer_type t') = Some name \<longrightarrow>
        TransferCallback K device p t' =
          Inr (set_tracker device (endpoint t')
                 ((tracker_at device (endpoint t'))
                    \<lparr>m_transfers := erase p (m_transfers (tracker_at device (endpoint t')))\<rparr>),
               [Log LERROR ''[%04x:%04x %d] %s transfer (endpoint 0x%02x) failed: %s'',
                OnTransferComplete cmd
                  (if status t' = LIBUSB_TRANSFER_STALL then - 7004 else - 5)])) \<and>
     (\<forall>device p t' cmd.
        find_transfer (m_transfers (tracker_at device (endpoint t'))) p = Some cmd \<and>
        status t' \<in>
            {LIBUSB_TRANSFER_ERROR, LIBUSB_TRANSFER_CANCELLED, LIBUSB_TRANSFER_TIMED_OUT,
             LIBUSB_TRANSFER_OVERFLOW, LIBUSB_TRANSFER_STALL} \<and>
        s_transfer_types (transfer_type t') = None \<longrightarrow>
        TransferCallback K device p t' = Inl OutOfRange)"
  (is "?submit_ctrl \<and> ?submit_bulk \<and> ?submit_intr \<and> ?submit_iso \<and> ?apart \<and> ?ctrl_absent \<and> ?ctrl_completed \<and> ?ctrl_no_device \<and> ?ctrl_failed \<and> ?ctrl_unknown \<and> ?own_absent \<and> ?own_completed \<and> ?own_no_device \<and> ?own_failed \<and> ?own_unknown")
proof -
  have sizes: "for_each (array_at (iso_packet_sizes iso_cmd)) [0 ..< unat (iso_num_packets iso_cmd)] =
      Inr (map ((!) (iso_packet_sizes iso_cmd)) [0 ..< unat (iso_num_packets iso_cmd)])"
    if "unat (iso_num_packets iso_cmd) \<le> length (iso_packet_sizes iso_cmd)"
    using that by (intro for_each_array_at) auto
  have submit_ctrl: ?submit_ctrl
    using attached alloc
    by (simp add: SubmitTransfer_Ctrl_def track_and_submit_def Let_def
        tracked_after_AddTransfer set_tracker_other)
  have submit_bulk: ?submit_bulk
    using attached alloc
    by (simp add: SubmitTransfer_Bulk_def track_and_submit_def Let_def
        tracked_after_AddTransfer set_tracker_other)
  have submit_intr: ?submit_intr
    using attached alloc
    by (simp add: SubmitTransfer_Intr_def track_and_submit_def Let_def
        tracked_after_AddTransfer set_tracker_other)
  have submit_iso: ?submit_iso
    using attached sizes
    by (simp add: SubmitTransfer_Iso_def track_and_submit_def Let_def
        tracked_after_AddTransfer set_tracker_other)
  have apart: ?apart
    by (simp add: set_tracker_def tracker_at_def)
  have ctrl_absent: ?ctrl_absent
    by (simp add: CtrlTransferCallback_def HandleTransfer_not_found)
  have ctrl_completed: ?ctrl_completed
    by (simp add: CtrlTransferCallback_def HandleTransfer_def CtrlTransferCallback_fn_result)
  have ctrl_no_device: ?ctrl_no_device
    by (simp add: CtrlTransferCallback_def HandleTransfer_no_device)
  have ctrl_failed: ?ctrl_failed
    by (intro allI impI) (simp add: CtrlTransferCallback_def HandleTransfer_failed)
  have ctrl_unknown: ?ctrl_unknown
    by (intro allI impI) (simp add: CtrlTransferCallback_def HandleTransfer_unknown_type)
  have own_absent: ?own_absent
    by (simp add: TransferCallback_def HandleTransfer_not_found)
  have own_completed: ?own_completed
    by (simp add: TransferCallback_def HandleTransfer_def TransferCallback_fn_other)
  have own_no_device: ?own_no_device
    by (simp add: TransferCallback_def HandleTransfer_no_device)
  have own_failed: ?own_failed
    by (intro allI impI) (simp add: TransferCallback_def HandleTransfer_failed)
  have own_unknown: ?own_unknown
    by (intro allI impI) (simp add: TransferCallback_def HandleTransfer_unknown_type)
  show ?thesis
    by (intro conjI submit_ctrl submit_bulk submit_intr submit_iso apart ctrl_absent
        ctrl_completed ctrl_no_device ctrl_failed ctrl_unknown own_absent own_completed
        own_no_device own_failed own_unknown)
qed

theorem control_transfers_on_endpoint_zero_witness:
  "m_device_attached attached_device \<and>
   libusb_alloc_transfer sample_host 0 = Some 16 \<and>
   request_key sample_ctrl \<noteq> USBHDR_SET_INTERFACE sample_constants \<and>
   request_key sample_ctrl \<noteq> USBHDR_SET_CONFIGURATION sample_constants \<and>
   libusb_alloc_transfer sample_host (unat (iso_num_packets sample_iso)) = Some 16 \<and>
   unat (iso_num_packets sample_iso) \<le> length (iso_packet_sizes sample_iso) \<and>
   (\<exists>t. SubmitTransfer_Ctrl sample_constants sample_host attached_device sample_ctrl =
          Inr (0, ctrl_device,
               [Host (Call_libusb_alloc_transfer 0), Host (Call_libusb_submit_transfer 16 t)]) \<and>
        endpoint t = 0 \<and> callback t = Cb_CtrlTransferCallback) \<and>
   (\<exists>t. SubmitTransfer_Iso sample_host attached_device sample_iso =
          Inr (0, iso_device,
               [Host (Call_libusb_alloc_transfer 2), Host (Call_libusb_submit_transfer 16 t)]) \<and>
        endpoint t = 0x82 \<and> callback t = Cb_TransferCallback) \<and>
   find_transfer (m_transfers (tracker_at ctrl_device 0)) 16 = Some (Ctrl sample_ctrl) \<and>
   m_transfer_endpoints ctrl_device 0x81 = None \<and>
   status sample_ctrl_transfer = LIBUSB_TRANSFER_COMPLETED \<and>
   CtrlTransferCallback sample_constants ctrl_device 16 sample_ctrl_transfer =
     Inr (set_tracker attached_device 0 \<lparr>m_transfers = []\<rparr>,
          [CommandCall (Ctrl sample_ctrl) (FillBuffer (ControlBuffer 0x80 6 0x0100 0 18 0x2000) 8 18),
           OnTransferComplete (Ctrl sample_ctrl) 26]) \<and>
   s_transfer_types (transfer_type (sample_ctrl_transfer\<lparr>status := LIBUSB_TRANSFER_STALL\<rparr>)) =
     Some ''Control'' \<and>
   CtrlTransferCallback sample_constants ctrl_device 16
       (sample_ctrl_transfer\<lparr>status := LIBUSB_TRANSFER_STALL\<rparr>) =
     Inr (set_tracker attached_device 0 \<lparr>m_transfers = []\<rparr>, [Log LERROR ''[%04x:%04x %d] %s transfer (endpoint 0x%02x) failed: %s'', OnTransferComplete (Ctrl sample_ctrl) (- 7004)]) \<and>
   CtrlTransferCallback sample_constants ctrl_device 16
       (sample_ctrl_transfer\<lparr>status := LIBUSB_TRANSFER_CANCELLED\<rparr>) =
     Inr (set_tracker attached_device 0 \<lparr>m_transfers = []\<rparr>, [Log LERROR ''[%04x:%04x %d] %s transfer (endpoint 0x%02x) failed: %s'', OnTransferComplete (Ctrl sample_ctrl) (- 5)]) \<and>
   CtrlTransferCallback sample_constants ctrl_device 16
       (sample_ctrl_transfer\<lparr>status := LIBUSB_TRANSFER_NO_DEVICE\<rparr>) =
     Inr (set_tracker attached_device 0 \<lparr>m_transfers = []\<rparr>, [OnTransferComplete (Ctrl sample_ctrl) (- 6)]) \<and>
   s_transfer_types (transfer_type (sample_ctrl_transfer\<lparr>status := LIBUSB_TRANSFER_ERROR,
       transfer_type := 4\<rparr>)) = None \<and>
   CtrlTransferCallback sample_constants ctrl_device 16
       (sample_ctrl_transfer\<lparr>status := LIBUSB_TRANSFER_ERROR, transfer_type := 4\<rparr>) =
     Inl OutOfRange \<and>
   find_transfer (m_transfers (tracker_at bulk_device 0)) 16 = None \<and>
   CtrlTransferCallback sample_constants bulk_device 16 sample_transfer =
     Inr (set_tracker bulk_device 0 \<lparr>m_transfers = []\<rparr>, [Log LERROR ''No such transfer'']) \<and>
   find_transfer (m_transfers (tracker_at ctrl_device (endpoint sample_transfer))) 16 = None \<and>
   TransferCallback sample_constants ctrl_device 16 sample_transfer =
     Inr (set_tracker ctrl_device 0x81 \<lparr>m_transfers = []\<rparr>, [Log LERROR ''No such transfer'']) \<and>
   find_transfer (m_transfers (tracker_at bulk_device (endpoint sample_transfer))) 16 =
     Some (Bulk sample_bulk) \<and>
   TransferCallback sample_constants bulk_device 16
       (sample_transfer\<lparr>status := LIBUSB_TRANSFER_NO_DEVICE\<rparr>) =
     Inr (drained_device, [OnTransferComplete (Bulk sample_bulk) (- 6)])"
proof -
  have keys: "request_key sample_ctrl \<noteq> USBHDR_SET_INTERFACE sample_constants"
    "request_key sample_ctrl \<noteq> USBHDR_SET_CONFIGURATION sample_constants"
    by (simp_all add: sample_ctrl_key sample_constants_def)
  have iso: "libusb_alloc_transfer sample_host (unat (iso_num_packets sample_iso)) = Some 16"
    "unat (iso_num_packets sample_iso) \<le> length (iso_packet_sizes sample_iso)"
    by (simp_all add: sample_alloc sample_iso_def)
  note T = control_transfers_on_endpoint_zero
    [OF attached_device_attached sample_alloc [of 0],
     where K = sample_constants and ctrl_cmd = sample_ctrl and iso_cmd = sample_iso
       and transfer' = 16]
  note T_submit_ctrl = T [THEN conjunct1]
  note T_submit_iso = T [THEN conjunct2, THEN conjunct2, THEN conjunct2, THEN conjunct1]
  note T_ctrl_absent = T [THEN conjunct2, THEN conjunct2, THEN conjunct2, THEN conjunct2, THEN conjunct2, THEN conjunct1, rule_format]
  note T_ctrl_completed = T [THEN conjunct2, THEN conjunct2, THEN conjunct2, THEN conjunct2, THEN conjunct2, THEN conjunct2, THEN conjunct1, rule_format]
  note T_ctrl_no_device = T [THEN conjunct2, THEN conjunct2, THEN conjunct2, THEN conjunct2, THEN conjunct2, THEN conjunct2, THEN conjunct2, THEN conjunct1, rule_format]
  note T_ctrl_failed = T [THEN conjunct2, THEN conjunct2, THEN conjunct2, THEN conjunct2, THEN conjunct2, THEN conjunct2, THEN conjunct2, THEN conjunct2, THEN conjunct1, rule_format]
  note T_ctrl_unknown = T [THEN conjunct2, THEN conjunct2, THEN conjunct2, THEN conjunct2, THEN conjunct2, THEN conjunct2, THEN conjunct2, THEN conjunct2, THEN conjunct2, THEN conjunct1, rule_format]
  note T_own_absent = T [THEN conjunct2, THEN conjunct2, THEN conjunct2, THEN conjunct2, THEN conjunct2, THEN conjunct2, THEN conjunct2, THEN conjunct2, THEN conjunct2, THEN conjunct2, THEN conjunct1, rule_format]
  note T_own_no_device = T [THEN conjunct2, THEN conjunct2, THEN conjunct2, THEN conjunct2, THEN conjunct2, THEN conjunct2, THEN conjunct2, THEN conjunct2, THEN conjunct2, THEN conjunct2, THEN conjunct2, THEN conjunct2, THEN conjunct1, rule_format]
  have ctrl_tracked: "set_tracker attached_device 0
      (AddTransfer (tracker_at attached_device 0) (Ctrl sample_ctrl) 16) = ctrl_device"
    by (simp add: ctrl_device_def tracker_at_def attached_device_no_tracker AddTransfer_def
        emplace_def find_transfer_def)
  have iso_tracked: "set_tracker attached_device (iso_endpoint sample_iso)
      (AddTransfer (tracker_at attached_device (iso_endpoint sample_iso)) (Iso sample_iso) 16) =
      iso_device"
    by (simp add: iso_device_def tracker_at_def attached_device_no_tracker AddTransfer_def
        emplace_def find_transfer_def sample_iso_def)
  have fresh: "find_transfer (m_transfers (tracker_at attached_device 0)) 16 = None"
    by (simp add: tracker_at_def attached_device_no_tracker find_transfer_def)
  have submit_ok: "libusb_submit_transfer sample_host p t = 0" for p t
    by (simp add: sample_host_def)
  from T_submit_ctrl keys obtain t this' where s1:
    "SubmitTransfer_Ctrl sample_constants sample_host attached_device sample_ctrl =
       Inr (libusb_submit_transfer sample_host 16 t, this',
            [Host (Call_libusb_alloc_transfer 0), Host (Call_libusb_submit_transfer 16 t)])"
    "endpoint t = 0" "callback t = Cb_CtrlTransferCallback"
    "this' = set_tracker attached_device 0
       (AddTransfer (tracker_at attached_device 0) (Ctrl sample_ctrl) 16)"
    "find_transfer (m_transfers (tracker_at this' 0)) 16 =
       (case find_transfer (m_transfers (tracker_at attached_device 0)) 16 of
          None \<Rightarrow> Some (Ctrl sample_ctrl)
        | Some earlier \<Rightarrow> Some earlier)"
    "\<forall>n. n \<noteq> 0 \<longrightarrow> m_transfer_endpoints this' n = m_transfer_endpoints attached_device n"
    by blast
  have here: "this' = ctrl_device"
    using s1(4) ctrl_tracked by simp
  have c1: "\<exists>t. SubmitTransfer_Ctrl sample_constants sample_host attached_device sample_ctrl =
          Inr (0, ctrl_device,
               [Host (Call_libusb_alloc_transfer 0), Host (Call_libusb_submit_transfer 16 t)]) \<and>
        endpoint t = 0 \<and> callback t = Cb_CtrlTransferCallback"
    using s1(1-3) here by (intro exI [of _ t]) (simp add: submit_ok)
  have found: "find_transfer (m_transfers (tracker_at ctrl_device 0)) 16 = Some (Ctrl sample_ctrl)"
    using s1(5) here fresh by simp
  have elsewhere: "m_transfer_endpoints ctrl_device 0x81 = None"
    using s1(6) here by (simp add: attached_device_no_tracker)
  from T_submit_iso iso obtain t2 this2 where s2:
    "SubmitTransfer_Iso sample_host attached_device sample_iso =
       Inr (libusb_submit_transfer sample_host 16 t2, this2,
            [Host (Call_libusb_alloc_transfer (unat (iso_num_packets sample_iso))),
             Host (Call_libusb_submit_transfer 16 t2)])"
    "endpoint t2 = iso_endpoint sample_iso" "callback t2 = Cb_TransferCallback"
    "this2 = set_tracker attached_device (iso_endpoint sample_iso)
       (AddTransfer (tracker_at attached_device (iso_endpoint sample_iso)) (Iso sample_iso) 16)"
    by blast
  have c2: "\<exists>t. SubmitTransfer_Iso sample_host attached_device sample_iso =
          Inr (0, iso_device,
               [Host (Call_libusb_alloc_transfer 2), Host (Call_libusb_submit_transfer 16 t)]) \<and>
        endpoint t = 0x82 \<and> callback t = Cb_TransferCallback"
    using s2 iso_tracked
    by (intro exI [of _ t2]) (simp add: submit_ok, simp add: sample_iso_def)
  have erased: "set_tracker ctrl_device 0
      ((tracker_at ctrl_device 0)
         \<lparr>m_transfers := erase 16 (m_transfers (tracker_at ctrl_device 0))\<rparr>) = set_tracker attached_device 0 \<lparr>m_transfers = []\<rparr>"
    by (simp add: ctrl_device_def tracker_at_def erase_def set_tracker_def)
  have completed: "status sample_ctrl_transfer = LIBUSB_TRANSFER_COMPLETED"
    by (simp add: sample_ctrl_transfer_def zeroed_transfer_def)
  have known: "s_transfer_types (transfer_type (sample_ctrl_transfer\<lparr>status := s\<rparr>)) =
      Some ''Control''" for s
    by (simp add: sample_ctrl_transfer_def known_transfer_types)
  have unknown: "s_transfer_types (transfer_type (sample_ctrl_transfer\<lparr>status := s,
      transfer_type := 4\<rparr>)) = None" for s
    by (simp add: s_transfer_types_def LIBUSB_TRANSFER_TYPE_CONTROL_def
        LIBUSB_TRANSFER_TYPE_ISOCHRONOUS_def LIBUSB_TRANSFER_TYPE_BULK_def
        LIBUSB_TRANSFER_TYPE_INTERRUPT_def)
  have c3: "CtrlTransferCallback sample_constants ctrl_device 16 sample_ctrl_transfer =
     Inr (set_tracker attached_device 0 \<lparr>m_transfers = []\<rparr>,
          [CommandCall (Ctrl sample_ctrl) (FillBuffer (ControlBuffer 0x80 6 0x0100 0 18 0x2000) 8 18),
           OnTransferComplete (Ctrl sample_ctrl) 26])"
    using T_ctrl_completed [of ctrl_device 16 "Ctrl sample_ctrl" sample_ctrl_transfer]
      found completed
    by (simp add: erased) (simp add: sample_ctrl_transfer_def)
  have c_stall: "CtrlTransferCallback sample_constants ctrl_device 16
       (sample_ctrl_transfer\<lparr>status := LIBUSB_TRANSFER_STALL\<rparr>) =
     Inr (set_tracker attached_device 0 \<lparr>m_transfers = []\<rparr>, [Log LERROR ''[%04x:%04x %d] %s transfer (endpoint 0x%02x) failed: %s'', OnTransferComplete (Ctrl sample_ctrl) (- 7004)])"
    using T_ctrl_failed [of ctrl_device 16 "Ctrl sample_ctrl"
        "sample_ctrl_transfer\<lparr>status := LIBUSB_TRANSFER_STALL\<rparr>" "''Control''"]
      found known [of LIBUSB_TRANSFER_STALL]
    by (simp add: erased)
  have c_cancel: "CtrlTransferCallback sample_constants ctrl_device 16
       (sample_ctrl_transfer\<lparr>status := LIBUSB_TRANSFER_CANCELLED\<rparr>) =
     Inr (set_tracker attached_device 0 \<lparr>m_transfers = []\<rparr>, [Log LERROR ''[%04x:%04x %d] %s transfer (endpoint 0x%02x) failed: %s'', OnTransferComplete (Ctrl sample_ctrl) (- 5)])"
    using T_ctrl_failed [of ctrl_device 16 "Ctrl sample_ctrl"
        "sample_ctrl_transfer\<lparr>status := LIBUSB_TRANSFER_CANCELLED\<rparr>" "''Control''"]
      found known [of LIBUSB_TRANSFER_CANCELLED]
    by (simp add: erased)
  have c_gone: "CtrlTransferCallback sample_constants ctrl_device 16
       (sample_ctrl_transfer\<lparr>status := LIBUSB_TRANSFER_NO_DEVICE\<rparr>) =
     Inr (set_tracker attached_device 0 \<lparr>m_transfers = []\<rparr>, [OnTransferComplete (Ctrl sample_ctrl) (- 6)])"
    using T_ctrl_no_device [of ctrl_device 16 "Ctrl sample_ctrl"
        "sample_ctrl_transfer\<lparr>status := LIBUSB_TRANSFER_NO_DEVICE\<rparr>"]
      found
    by (simp add: erased sample_constants_def)
  have c_throw: "CtrlTransferCallback sample_constants ctrl_device 16
       (sample_ctrl_transfer\<lparr>status := LIBUSB_TRANSFER_ERROR, transfer_type := 4\<rparr>) =
     Inl OutOfRange"
    using T_ctrl_unknown [of ctrl_device 16 "Ctrl sample_ctrl"
        "sample_ctrl_transfer\<lparr>status := LIBUSB_TRANSFER_ERROR, transfer_type := 4\<rparr>"]
      found unknown [of LIBUSB_TRANSFER_ERROR]
    by simp
  have missing: "find_transfer (m_transfers (tracker_at bulk_device 0)) 16 = None"
    by (simp add: bulk_device_def tracker_at_def set_tracker_def attached_device_no_tracker
        find_transfer_def)
  have c4: "CtrlTransferCallback sample_constants bulk_device 16 sample_transfer =
     Inr (set_tracker bulk_device 0 \<lparr>m_transfers = []\<rparr>, [Log LERROR ''No such transfer''])"
    using T_ctrl_absent [of bulk_device 16 sample_transfer] missing
    by (simp add: bulk_device_def tracker_at_def set_tracker_def attached_device_no_tracker)
  have missing': "find_transfer (m_transfers (tracker_at ctrl_device (endpoint sample_transfer))) 16 =
      None"
    by (simp add: ctrl_device_def tracker_at_def set_tracker_def attached_device_no_tracker
        find_transfer_def sample_transfer_def)
  have c5: "TransferCallback sample_constants ctrl_device 16 sample_transfer =
     Inr (set_tracker ctrl_device 0x81 \<lparr>m_transfers = []\<rparr>, [Log LERROR ''No such transfer''])"
    using T_own_absent [of ctrl_device sample_transfer 16] missing'
    by (simp add: ctrl_device_def tracker_at_def set_tracker_def attached_device_no_tracker
        sample_transfer_def)
  have own: "find_transfer (m_transfers (tracker_at bulk_device (endpoint sample_transfer))) 16 =
      Some (Bulk sample_bulk)"
    by (simp add: bulk_device_def tracker_at_def set_tracker_def sample_transfer_def
        sample_found)
  have c6: "TransferCallback sample_constants bulk_device 16
       (sample_transfer\<lparr>status := LIBUSB_TRANSFER_NO_DEVICE\<rparr>) =
     Inr (drained_device, [OnTransferComplete (Bulk sample_bulk) (- 6)])"
    using T_own_no_device [of bulk_device
        "sample_transfer\<lparr>status := LIBUSB_TRANSFER_NO_DEVICE\<rparr>" 16 "Bulk sample_bulk"]
      own
    by (simp add: sample_constants_def bulk_device_def drained_device_def tracker_at_def
        set_tracker_def sample_transfer_def erase_def sample_tracker_def)
  show ?thesis
    using attached_device_attached sample_alloc [of 0] keys iso c1 c2 found elsewhere completed
      c3 known [of LIBUSB_TRANSFER_STALL] c_stall c_cancel c_gone
      unknown [of LIBUSB_TRANSFER_ERROR] c_throw missing c4 missing' c5 own c6
    by simp
qed

subsection \<open>What the device submits\<close>

text \<open>
  The properties of the tracker above ask for a transfer type that the log table
  knows, and for an isochronous transfer with a packet descriptor for each packet of
  its command. Every transfer this device hands to \<^verbatim>\<open>libusb_submit_transfer\<close> is such.
\<close>

lemma submitted_transfer_type_known:
  assumes "Host (Call_libusb_submit_transfer p t) \<in> set evs"
      and "SubmitTransfer_Ctrl K h this ctrl_cmd = Inr (ret, this', evs) \<or>
           SubmitTransfer_Bulk h this bulk_cmd = Inr (ret, this', evs) \<or>
           SubmitTransfer_Intr h this intr_cmd = Inr (ret, this', evs) \<or>
           SubmitTransfer_Iso h this iso_cmd = Inr (ret, this', evs)"
  shows "s_transfer_types (transfer_type t) \<noteq> None"
proof -
  have no_submit: "Host (Call_libusb_submit_transfer p t) \<notin> set evs'"
    if "filter is_transfer_call (host_calls evs') = []" for evs'
    using that by (induction evs' rule: host_calls.induct) (auto split: if_splits)
  from assms(2) consider
      (ctrl) "SubmitTransfer_Ctrl K h this ctrl_cmd = Inr (ret, this', evs)"
    | (bulk) "SubmitTransfer_Bulk h this bulk_cmd = Inr (ret, this', evs)"
    | (intr) "SubmitTransfer_Intr h this intr_cmd = Inr (ret, this', evs)"
    | (iso) "SubmitTransfer_Iso h this iso_cmd = Inr (ret, this', evs)"
    by blast
  then show ?thesis
  proof cases
    case ctrl
    show ?thesis
    proof (cases "m_device_attached this \<and>
        (request_key ctrl_cmd = USBHDR_SET_INTERFACE K \<or>
         request_key ctrl_cmd = USBHDR_SET_CONFIGURATION K)")
      case True
      then have att: "m_device_attached this" by simp
      have "filter is_transfer_call (host_calls evs) = []"
      proof (cases "request_key ctrl_cmd = USBHDR_SET_INTERFACE K")
        case False
        with True ctrl show ?thesis
          by (auto simp: SubmitTransfer_Ctrl_def Let_def)
      next
        case si: True
        show ?thesis
        proof (cases "(ucast (ctrl_index ctrl_cmd) :: u8) \<noteq> m_active_interface this")
          case False
          with si att ctrl show ?thesis
            by (auto simp: SubmitTransfer_Ctrl_def SetAltSetting_def split: if_splits)
        next
          case ch: True
          show ?thesis
          proof (cases "ChangeInterface h this (ucast (ctrl_index ctrl_cmd))")
            case (Inl e)
            with si att ch ctrl show ?thesis by (simp add: SubmitTransfer_Ctrl_def)
          next
            case (Inr res)
            obtain r1 d1 e1 where res: "res = (r1, d1, e1)" by (cases res)
            note fr = ChangeInterface_frame [OF Inr [unfolded res]]
            show ?thesis
              using si att ch ctrl Inr res fr
              by (auto simp: SubmitTransfer_Ctrl_def SetAltSetting_def host_calls_append
                  split: if_splits)
          qed
        qed
      qed
      then show ?thesis using no_submit assms(1) by blast
    next
      case False
      then show ?thesis
        using ctrl assms(1)
        by (auto simp: SubmitTransfer_Ctrl_def track_and_submit_def Let_def known_transfer_types
            split: if_splits option.splits)
    qed
  next
    case bulk
    then show ?thesis
      using assms(1)
      by (auto simp: SubmitTransfer_Bulk_def track_and_submit_def Let_def known_transfer_types
          split: if_splits option.splits)
  next
    case intr
    then show ?thesis
      using assms(1)
      by (auto simp: SubmitTransfer_Intr_def track_and_submit_def Let_def known_transfer_types
          split: if_splits option.splits)
  next
    case iso
    then show ?thesis
      using assms(1)
      by (auto simp: SubmitTransfer_Iso_def track_and_submit_def Let_def known_transfer_types
          split: if_splits option.splits sum.splits)
  qed
qed

lemma submitted_iso_transfer_packets:
  assumes "SubmitTransfer_Iso h this iso_cmd = Inr (ret, this', evs)"
      and "Host (Call_libusb_submit_transfer p t) \<in> set evs"
  shows "transfer_type t = LIBUSB_TRANSFER_TYPE_ISOCHRONOUS \<and>
         length (iso_packet_desc t) = unat (iso_num_packets iso_cmd) \<and>
         endpoint t = iso_endpoint iso_cmd"
proof -
  have len: "length ys = length idx" if "for_each f idx = Inr ys" for f :: "nat \<Rightarrow> fault + 'b" and idx ys
    using that by (induction idx arbitrary: ys) (auto split: sum.splits)
  show ?thesis
    using assms
    by (auto simp: SubmitTransfer_Iso_def track_and_submit_def Let_def
        split: if_splits option.splits sum.splits dest: len)
qed

text \<open>
  The packet lengths of a submitted isochronous transfer come from the 16-bit packet
  sizes of the command, so a host that reports for no packet more than the length it
  was given reports lengths that the 16-bit return value of a packet holds.
\<close>

lemma packet_size_fits: "(ucast (sz :: u16) :: u32) < 0x10000"
proof -
  have small: "unat sz < 65536"
    using unsigned_less [of sz, where ?'a = nat] by simp
  have "unat (ucast sz :: u32) = unat sz mod 4294967296"
    by (simp add: unsigned_ucast_eq take_bit_eq_mod)
  with small have "unat (ucast sz :: u32) < 65536"
    by simp
  then show ?thesis
    by (simp add: word_less_nat_alt)
qed

lemma submitted_iso_packet_lengths:
  assumes "SubmitTransfer_Iso h this iso_cmd = Inr (ret, this', evs)"
      and "Host (Call_libusb_submit_transfer p t) \<in> set evs"
  shows "\<forall>d \<in> set (iso_packet_desc t). packet_length d < 0x10000"
  using assms
  by (auto simp: SubmitTransfer_Iso_def track_and_submit_def Let_def packet_size_fits
      split: if_splits option.splits sum.splits)

text \<open>
  The code does not check the endpoint number of a bulk command: one for endpoint 0
  is tracked in the tracker that also holds the control transfers.
\<close>

lemma bulk_on_endpoint_zero:
  assumes "m_device_attached this" and "libusb_alloc_transfer h 0 = Some transfer"
      and "bulk_endpoint cmd = 0"
  shows "\<exists>ret evs. SubmitTransfer_Bulk h this cmd =
           Inr (ret, set_tracker this 0 (AddTransfer (tracker_at this 0) (Bulk cmd) transfer), evs)"
  using assms by (simp add: SubmitTransfer_Bulk_def track_and_submit_def Let_def)

end
